theory Spec2Isabelle
  imports Complex_Main
begin

section \<open>The fetch-recipe function: values of the runtime\<close>

text \<open>
  The function \<^verbatim>\<open>supabase/functions/fetch-recipe/index.ts\<close> reads JSON from three
  upstream services and passes it around untyped. A value of the runtime is therefore
  modelled as it is after \<^verbatim>\<open>JSON.parse\<close>, with \<open>JUndefined\<close> for a property that is
  not there. A number is the rational value of the double it stands for; the program does
  no arithmetic on upstream numbers, it only tests them. A string is a list of code units,
  the characters 0 to 255 standing for the code units of that range.
\<close>

datatype jsval =
    JUndefined
  | JNull
  | JBool bool
  | JNum rat
  | JStr string
  | JArr "jsval list"
  | JObj "(string \<times> jsval) list"

text \<open>
  What the program can throw: \<open>Error m\<close> is \<^verbatim>\<open>throw new Error(m)\<close>; \<open>TypeError d\<close> is
  raised by the runtime when a property of \<^verbatim>\<open>null\<close> or \<^verbatim>\<open>undefined\<close> is read or
  a value that is not a function is called (\<open>d\<close> names the expression at fault, the text of
  the message being the engine's); \<open>Upstream m\<close> is whatever \<^verbatim>\<open>fetch\<close> or
  \<^verbatim>\<open>response.json()\<close> throws.
\<close>

datatype exn = Error string | TypeError string | Upstream string

definition bnd :: "exn + 'a \<Rightarrow> ('a \<Rightarrow> exn + 'b) \<Rightarrow> exn + 'b" where
  "bnd m f = (case m of Inl e \<Rightarrow> Inl e | Inr v \<Rightarrow> f v)"

fun truthy :: "jsval \<Rightarrow> bool" where
  "truthy JUndefined = False"
| "truthy JNull = False"
| "truthy (JBool b) = b"
| "truthy (JNum n) = (n \<noteq> 0)"
| "truthy (JStr s) = (s \<noteq> [])"
| "truthy (JArr xs) = True"
| "truthy (JObj kvs) = True"

text \<open>\<^verbatim>\<open>a || b\<close>\<close>

definition js_or :: "jsval \<Rightarrow> jsval \<Rightarrow> jsval" where
  "js_or a b = (if truthy a then a else b)"

definition lookup :: "(string \<times> jsval) list \<Rightarrow> string \<Rightarrow> jsval" where
  "lookup kvs k = (case map_of kvs k of None \<Rightarrow> JUndefined | Some v \<Rightarrow> v)"

text \<open>
  \<^verbatim>\<open>v.k\<close> and \<^verbatim>\<open>v[k]\<close> for the property names the program reads (none of them is a
  member of a prototype other than \<^verbatim>\<open>length\<close>).
\<close>

fun get_prop :: "jsval \<Rightarrow> string \<Rightarrow> exn + jsval" where
  "get_prop JUndefined k = Inl (TypeError k)"
| "get_prop JNull k = Inl (TypeError k)"
| "get_prop (JObj kvs) k = Inr (lookup kvs k)"
| "get_prop (JArr xs) k = Inr (if k = ''length'' then JNum (of_nat (length xs)) else JUndefined)"
| "get_prop (JStr s) k = Inr (if k = ''length'' then JNum (of_nat (length s)) else JUndefined)"
| "get_prop (JBool b) k = Inr JUndefined"
| "get_prop (JNum n) k = Inr JUndefined"

text \<open>\<^verbatim>\<open>v[0]\<close>\<close>

fun index0 :: "jsval \<Rightarrow> exn + jsval" where
  "index0 JUndefined = Inl (TypeError ''0'')"
| "index0 JNull = Inl (TypeError ''0'')"
| "index0 (JArr xs) = Inr (case xs of [] \<Rightarrow> JUndefined | x # _ \<Rightarrow> x)"
| "index0 (JStr s) = Inr (case s of [] \<Rightarrow> JUndefined | c # _ \<Rightarrow> JStr [c])"
| "index0 (JObj kvs) = Inr (lookup kvs ''0'')"
| "index0 (JBool b) = Inr JUndefined"
| "index0 (JNum n) = Inr JUndefined"

text \<open>\<^verbatim>\<open>v?.k\<close> and \<^verbatim>\<open>v?.[0]\<close>\<close>

definition opt_prop :: "jsval \<Rightarrow> string \<Rightarrow> jsval" where
  "opt_prop v k = (case get_prop v k of Inl e \<Rightarrow> JUndefined | Inr w \<Rightarrow> w)"

definition opt_index0 :: "jsval \<Rightarrow> jsval" where
  "opt_index0 v = (case index0 v of Inl e \<Rightarrow> JUndefined | Inr w \<Rightarrow> w)"

text \<open>Running a callback that may throw over an array, left to right.\<close>

fun map_exn :: "('a \<Rightarrow> exn + 'b) \<Rightarrow> 'a list \<Rightarrow> exn + 'b list" where
  "map_exn f [] = Inr []"
| "map_exn f (x # xs) =
     (case f x of
        Inl e \<Rightarrow> Inl e
      | Inr y \<Rightarrow> (case map_exn f xs of Inl e \<Rightarrow> Inl e | Inr ys \<Rightarrow> Inr (y # ys)))"

text \<open>
  \<^verbatim>\<open>v?.map(f) || []\<close>: nothing for \<^verbatim>\<open>null\<close> and \<^verbatim>\<open>undefined\<close>, the mapped
  array for an array (an array is truthy, also when empty), and a TypeError for anything
  else, which has no function \<^verbatim>\<open>map\<close>.
\<close>

fun opt_map_or_empty :: "string \<Rightarrow> (jsval \<Rightarrow> exn + 'b) \<Rightarrow> jsval \<Rightarrow> exn + 'b list" where
  "opt_map_or_empty d f JUndefined = Inr []"
| "opt_map_or_empty d f JNull = Inr []"
| "opt_map_or_empty d f (JArr xs) = map_exn f xs"
| "opt_map_or_empty d f v = Inl (TypeError d)"

subsection \<open>Strings\<close>

definition isWhitespace :: "char \<Rightarrow> bool" where
  "isWhitespace c =
     (let n = (of_char c :: nat) in (9 \<le> n \<and> n \<le> 13) \<or> n = 32 \<or> n = 160)"

definition trim :: "string \<Rightarrow> string" where
  "trim s = rev (dropWhile isWhitespace (rev (dropWhile isWhitespace s)))"

definition toLowerChar :: "char \<Rightarrow> char" where
  "toLowerChar c =
     (let n = (of_char c :: nat) in
      if (65 \<le> n \<and> n \<le> 90) \<or> (192 \<le> n \<and> n \<le> 222 \<and> n \<noteq> 215)
      then char_of (n + 32) else c)"

definition toLowerCase :: "string \<Rightarrow> string" where
  "toLowerCase s = map toLowerChar s"

text \<open>\<^verbatim>\<open>s.split('_')\<close>: the pieces between the separators, at least one piece.\<close>

fun split_on :: "char \<Rightarrow> string \<Rightarrow> string list" where
  "split_on sep [] = [[]]"
| "split_on sep (c # cs) =
     (if c = sep then [] # split_on sep cs
      else (case split_on sep cs of [] \<Rightarrow> [[c]] | p # ps \<Rightarrow> (c # p) # ps))"

text \<open>\<^verbatim>\<open>xs[1]\<close> on the array of pieces.\<close>

definition index1 :: "string list \<Rightarrow> jsval" where
  "index1 ps = (case ps of _ # p # _ \<Rightarrow> JStr p | _ \<Rightarrow> JUndefined)"

text \<open>The decimal numeral of a loop counter, as the template literal writes it.\<close>

fun show_nat :: "nat \<Rightarrow> string" where
  "show_nat n =
     (if n < 10 then [char_of (48 + n)]
      else show_nat (n div 10) @ [char_of (48 + n mod 10)])"

declare show_nat.simps [simp del]

text \<open>
  Writing a value as a string. How the runtime writes a number is taken as a parameter
  \<open>nf\<close>. An array is its elements joined by commas, \<^verbatim>\<open>null\<close> and
  \<^verbatim>\<open>undefined\<close> elements written as nothing. An object is written by the
  \<^verbatim>\<open>toString\<close> it inherits; an object with a key \<^verbatim>\<open>toString\<close> of its own, whose
  value cannot be a function, has none to call, and writing it (alone or inside an array)
  throws a TypeError: such a value is not \<open>printable\<close>.
\<close>

fun printable :: "jsval \<Rightarrow> bool" where
  "printable (JObj kvs) = (map_of kvs ''toString'' = None)"
| "printable (JArr xs) = list_all printable xs"
| "printable v = True"

fun join_comma :: "string list \<Rightarrow> string" where
  "join_comma [] = []"
| "join_comma [p] = p"
| "join_comma (p # q # ps) = p @ '','' @ join_comma (q # ps)"

fun to_str :: "(rat \<Rightarrow> string) \<Rightarrow> jsval \<Rightarrow> string" where
  "to_str nf JUndefined = ''undefined''"
| "to_str nf JNull = ''null''"
| "to_str nf (JBool b) = (if b then ''true'' else ''false'')"
| "to_str nf (JNum n) = nf n"
| "to_str nf (JStr s) = s"
| "to_str nf (JArr xs) =
     join_comma (map (\<lambda>x. if x = JUndefined \<or> x = JNull then [] else to_str nf x) xs)"
| "to_str nf (JObj kvs) = ''[object Object]''"

text \<open>\<^verbatim>\<open>v.toString()\<close>, which \<^verbatim>\<open>null\<close> and \<^verbatim>\<open>undefined\<close> do not have.\<close>

definition js_toString :: "(rat \<Rightarrow> string) \<Rightarrow> jsval \<Rightarrow> exn + string" where
  "js_toString nf v =
     (if v = JUndefined \<or> v = JNull \<or> \<not> printable v then Inl (TypeError ''toString'')
      else Inr (to_str nf v))"

section \<open>The normalized recipe\<close>

text \<open>The object every adapter returns (lines 128-145, 167-181, 212-224).\<close>

record ingredient =
  name :: jsval
  amount :: jsval
  unit_f :: jsval
  originalString :: jsval

record instruction =
  number :: jsval
  step :: jsval

record recipe =
  id_f :: jsval
  title :: jsval
  image_f :: jsval
  readyInMinutes :: jsval
  servings :: jsval
  ingredients :: "ingredient list"
  instructions :: "instruction list"
  nutrition :: jsval

section \<open>The environment of one invocation\<close>

text \<open>
  A call to an upstream service is named by what the program puts into the URL, and the
  service answers with the parsed body or with the exception that \<^verbatim>\<open>fetch\<close> or
  \<^verbatim>\<open>json()\<close> throws.
\<close>

datatype upstream_request =
    SpoonacularSearch string string
  | SpoonacularDetail string jsval
  | EdamamSearch string string string
  | TheMealDBSearch string

text \<open>
  What a table does with an upsert: it stores the row, it answers with an error value and
  stores nothing (so, for one, when the row offends a UNIQUE constraint that is not the
  conflict target of the upsert), or the call throws.
\<close>

datatype upsert_outcome = Stored | Rejected | Threw exn

text \<open>
  \<open>now_select\<close> and \<open>now_upsert\<close> are the two readings of the clock (lines 35 and 65),
  in milliseconds; \<open>cache_upsert\<close> and \<open>recipes_upsert\<close> are what the tables
  \<^verbatim>\<open>recipe_cache\<close> and \<^verbatim>\<open>recipes\<close> do with the upsert of lines 68-75 and of
  lines 229-241.
\<close>

record env =
  getenv :: "string \<Rightarrow> string option"
  fetch_json :: "upstream_request \<Rightarrow> exn + jsval"
  now_select :: int
  now_upsert :: int
  cache_upsert :: upsert_outcome
  recipes_upsert :: upsert_outcome
  number_toString :: "rat \<Rightarrow> string"

section \<open>The three adapters\<close>

subsection \<open>Spoonacular (lines 105-146)\<close>

definition spoonacular_ingredient :: "jsval \<Rightarrow> exn + ingredient" where
  "spoonacular_ingredient ing =
     bnd (get_prop ing ''name'') (\<lambda>n.
     bnd (get_prop ing ''amount'') (\<lambda>a.
     bnd (get_prop ing ''unit'') (\<lambda>u.
     bnd (get_prop ing ''original'') (\<lambda>original.
       Inr \<lparr>name = n, amount = a, unit_f = u, originalString = original\<rparr>))))"

definition spoonacular_step :: "jsval \<Rightarrow> exn + instruction" where
  "spoonacular_step st =
     bnd (get_prop st ''number'') (\<lambda>n.
     bnd (get_prop st ''step'') (\<lambda>t.
       Inr \<lparr>number = n, step = t\<rparr>))"

text \<open>Lines 117-124: the first search result and its \<^verbatim>\<open>id\<close>.\<close>

definition spoonacular_first :: "jsval \<Rightarrow> exn + jsval" where
  "spoonacular_first searchData =
     bnd (get_prop searchData ''results'') (\<lambda>results.
       if \<not> truthy results then Inl (Error ''No recipes found'')
       else bnd (get_prop results ''length'') (\<lambda>len.
         if len = JNum 0 then Inl (Error ''No recipes found'')
         else bnd (index0 results) (\<lambda>r. get_prop r ''id'')))"

text \<open>Lines 128-145.\<close>

definition spoonacular_recipe :: "jsval \<Rightarrow> exn + recipe" where
  "spoonacular_recipe detailData =
     bnd (get_prop detailData ''id'') (\<lambda>i.
     bnd (get_prop detailData ''title'') (\<lambda>t.
     bnd (get_prop detailData ''image'') (\<lambda>im.
     bnd (get_prop detailData ''readyInMinutes'') (\<lambda>rm.
     bnd (get_prop detailData ''servings'') (\<lambda>sv.
     bnd (get_prop detailData ''extendedIngredients'') (\<lambda>ext.
     bnd (opt_map_or_empty ''extendedIngredients.map'' spoonacular_ingredient ext) (\<lambda>ings.
     bnd (get_prop detailData ''analyzedInstructions'') (\<lambda>an.
     bnd (opt_map_or_empty ''steps.map'' spoonacular_step (opt_prop (opt_index0 an) ''steps''))
       (\<lambda>ins.
     bnd (get_prop detailData ''nutrition'') (\<lambda>nu.
       Inr \<lparr>id_f = i, title = t, image_f = im, readyInMinutes = rm, servings = sv,
            ingredients = ings, instructions = ins,
            nutrition = js_or nu JNull\<rparr>))))))))))"

text \<open>
  Lines 106-126. The \<^verbatim>\<open>id\<close> of the first result is written into the URL of the second
  call, which throws when it is not printable.
\<close>

definition fetchFromSpoonacular :: "env \<Rightarrow> string \<Rightarrow> upstream_request list \<times> (exn + recipe)" where
  "fetchFromSpoonacular e dishName =
     (case getenv e ''SPOONACULAR_API_KEY'' of
        None \<Rightarrow> ([], Inl (Error ''Spoonacular API key not configured''))
      | Some apiKey \<Rightarrow>
          if apiKey = [] then ([], Inl (Error ''Spoonacular API key not configured''))
          else
            (let search = SpoonacularSearch apiKey dishName in
             case fetch_json e search of
               Inl x \<Rightarrow> ([search], Inl x)
             | Inr searchData \<Rightarrow>
                 (case spoonacular_first searchData of
                    Inl x \<Rightarrow> ([search], Inl x)
                  | Inr rid \<Rightarrow>
                      if \<not> printable rid then ([search], Inl (TypeError ''recipe.id''))
                      else
                        (let detail = SpoonacularDetail apiKey rid in
                         ([search, detail], bnd (fetch_json e detail) spoonacular_recipe)))))"

subsection \<open>Edamam (lines 148-182)\<close>

definition edamam_ingredient :: "jsval \<Rightarrow> exn + ingredient" where
  "edamam_ingredient ing =
     bnd (get_prop ing ''food'') (\<lambda>f.
     bnd (get_prop ing ''quantity'') (\<lambda>q.
     bnd (get_prop ing ''measure'') (\<lambda>m.
     bnd (get_prop ing ''text'') (\<lambda>t.
       Inr \<lparr>name = f, amount = js_or q (JNum 1), unit_f = m, originalString = t\<rparr>))))"

text \<open>Line 168: \<^verbatim>\<open>recipe.uri.split('_')[1]\<close>; only a string has \<^verbatim>\<open>split\<close>.\<close>

definition edamam_id :: "jsval \<Rightarrow> exn + jsval" where
  "edamam_id r =
     bnd (get_prop r ''uri'') (\<lambda>uri.
       case uri of
         JStr s \<Rightarrow> Inr (index1 (split_on (CHR ''_'') s))
       | _ \<Rightarrow> Inl (TypeError ''recipe.uri.split''))"

text \<open>Lines 161-165: the recipe of the first hit.\<close>

definition edamam_first :: "jsval \<Rightarrow> exn + jsval" where
  "edamam_first data =
     bnd (get_prop data ''hits'') (\<lambda>hits.
       if \<not> truthy hits then Inl (Error ''No recipes found'')
       else bnd (get_prop hits ''length'') (\<lambda>len.
         if len = JNum 0 then Inl (Error ''No recipes found'')
         else bnd (index0 hits) (\<lambda>h. get_prop h ''recipe'')))"

text \<open>Lines 167-181.\<close>

definition edamam_recipe :: "jsval \<Rightarrow> exn + recipe" where
  "edamam_recipe r =
     bnd (edamam_id r) (\<lambda>i.
     bnd (get_prop r ''label'') (\<lambda>t.
     bnd (get_prop r ''image'') (\<lambda>im.
     bnd (get_prop r ''yield'') (\<lambda>sv.
     bnd (get_prop r ''ingredients'') (\<lambda>raw.
     bnd (opt_map_or_empty ''recipe.ingredients.map'' edamam_ingredient raw) (\<lambda>ings.
     bnd (get_prop r ''totalNutrients'') (\<lambda>nu.
       Inr \<lparr>id_f = i, title = t, image_f = im, readyInMinutes = JNull, servings = sv,
            ingredients = ings, instructions = [],
            nutrition = js_or nu JNull\<rparr>)))))))"

definition fetchFromEdamam :: "env \<Rightarrow> string \<Rightarrow> upstream_request list \<times> (exn + recipe)" where
  "fetchFromEdamam e dishName =
     (case (getenv e ''EDAMAM_APP_ID'', getenv e ''EDAMAM_APP_KEY'') of
        (Some appId, Some appKey) \<Rightarrow>
          if appId = [] \<or> appKey = []
          then ([], Inl (Error ''Edamam API credentials not configured''))
          else
            (let search = EdamamSearch appId appKey dishName in
             ([search], bnd (fetch_json e search) (\<lambda>data. bnd (edamam_first data) edamam_recipe)))
      | _ \<Rightarrow> ([], Inl (Error ''Edamam API credentials not configured'')))"

subsection \<open>TheMealDB (lines 184-225)\<close>

text \<open>
  Lines 202-209, one round of the loop: nothing is pushed when the ingredient is falsy
  or blank; \<^verbatim>\<open>trim\<close> exists on strings only.
\<close>

definition mealdb_entry :: "jsval \<Rightarrow> jsval \<Rightarrow> exn + ingredient option" where
  "mealdb_entry ingredient measure' =
     (if \<not> truthy ingredient then Inr None
      else case ingredient of
        JStr s \<Rightarrow>
          if trim s = [] then Inr None
          else bnd (if truthy measure'
                    then (case measure' of
                            JStr m \<Rightarrow> Inr (JStr (trim m))
                          | _ \<Rightarrow> Inl (TypeError ''measure.trim''))
                    else Inr (JStr [])) (\<lambda>a.
                 Inr (Some \<lparr>name = JStr (trim s), amount = a, unit_f = JStr [],
                            originalString =
                              JStr (trim ((case js_or measure' (JStr []) of JStr m \<Rightarrow> m | _ \<Rightarrow> [])
                                          @ '' '' @ s))\<rparr>))
      | _ \<Rightarrow> Inl (TypeError ''ingredient.trim''))"

text \<open>Lines 197-210: \<^verbatim>\<open>for (let i = 1; i <= 20; i++)\<close>, started at \<open>i = 1\<close> with no ingredients.\<close>

function ingredients_loop :: "jsval \<Rightarrow> nat \<Rightarrow> ingredient list \<Rightarrow> exn + ingredient list" where
  "ingredients_loop meal i acc =
     (if i \<le> 20 then
        (case get_prop meal (''strIngredient'' @ show_nat i) of
           Inl x \<Rightarrow> Inl x
         | Inr ingredient \<Rightarrow>
             (case get_prop meal (''strMeasure'' @ show_nat i) of
                Inl x \<Rightarrow> Inl x
              | Inr measure' \<Rightarrow>
                  (case mealdb_entry ingredient measure' of
                     Inl x \<Rightarrow> Inl x
                   | Inr None \<Rightarrow> ingredients_loop meal (Suc i) acc
                   | Inr (Some g) \<Rightarrow> ingredients_loop meal (Suc i) (acc @ [g]))))
      else Inr acc)"
  by pat_completeness auto
termination
  by (relation "measure (\<lambda>(meal, i, acc). 21 - i)") auto

declare ingredients_loop.simps [simp del]

text \<open>Lines 190-194: the first meal.\<close>

definition mealdb_first :: "jsval \<Rightarrow> exn + jsval" where
  "mealdb_first data =
     bnd (get_prop data ''meals'') (\<lambda>meals.
       if \<not> truthy meals then Inl (Error ''No recipes found'')
       else bnd (get_prop meals ''length'') (\<lambda>len.
         if len = JNum 0 then Inl (Error ''No recipes found'')
         else index0 meals))"

text \<open>Lines 196-224.\<close>

definition mealdb_recipe :: "jsval \<Rightarrow> exn + recipe" where
  "mealdb_recipe meal =
     bnd (ingredients_loop meal 1 []) (\<lambda>ings.
     bnd (get_prop meal ''idMeal'') (\<lambda>i.
     bnd (get_prop meal ''strMeal'') (\<lambda>t.
     bnd (get_prop meal ''strMealThumb'') (\<lambda>im.
     bnd (get_prop meal ''strInstructions'') (\<lambda>si.
       Inr \<lparr>id_f = i, title = t, image_f = im, readyInMinutes = JNull, servings = JNull,
            ingredients = ings,
            instructions = (if truthy si then [\<lparr>number = JNum 1, step = si\<rparr>] else []),
            nutrition = JNull\<rparr>)))))"

definition fetchFromTheMealDB :: "env \<Rightarrow> string \<Rightarrow> upstream_request list \<times> (exn + recipe)" where
  "fetchFromTheMealDB e dishName =
     (let search = TheMealDBSearch dishName in
      ([search], bnd (fetch_json e search) (\<lambda>data. bnd (mealdb_first data) mealdb_recipe)))"

section \<open>The two tables\<close>

text \<open>
  \<^verbatim>\<open>recipe_cache\<close> has one row for each pair of \<^verbatim>\<open>search_query\<close> and
  \<^verbatim>\<open>api_source\<close>, and \<^verbatim>\<open>recipes\<close> one row for each pair of \<^verbatim>\<open>external_id\<close> and
  \<^verbatim>\<open>api_source\<close> (the UNIQUE constraints of the migration). A row of \<^verbatim>\<open>recipes\<close>
  holds the fields of the recipe, column by column. An upsert that the table stores
  inserts the row or replaces the row of the same pair.
\<close>

record cache_row =
  response_data :: recipe
  expires_at :: int

record store =
  recipe_cache :: "string \<times> string \<Rightarrow> cache_row option"
  recipes :: "string \<times> string \<Rightarrow> recipe option"

text \<open>
  Lines 30-36: the row of the pair, when its \<^verbatim>\<open>expires_at\<close> is greater than the time
  of the query.
\<close>

definition cache_select :: "(string \<times> string \<Rightarrow> cache_row option) \<Rightarrow> string \<Rightarrow> string \<Rightarrow> int \<Rightarrow> cache_row option" where
  "cache_select c search_query api_source now =
     (case c (search_query, api_source) of
        None \<Rightarrow> None
      | Some row \<Rightarrow> if now < expires_at row then Some row else None)"

text \<open>What an invocation does to the outside, in the order it does it.\<close>

datatype event =
    CacheSelect string string int
  | Fetch upstream_request
  | CacheUpsert string string recipe int
  | RecipesUpsert string string recipe

text \<open>
  Lines 227-246. Whatever is thrown inside, by \<^verbatim>\<open>id.toString()\<close> or by the upsert, is
  caught and logged; an error value of the upsert is not looked at.
\<close>

definition storeRecipe :: "env \<Rightarrow> store \<Rightarrow> recipe \<Rightarrow> string \<Rightarrow> store \<times> event list" where
  "storeRecipe e s recipeData apiSource =
     (case js_toString (number_toString e) (id_f recipeData) of
        Inl x \<Rightarrow> (s, [])
      | Inr external_id \<Rightarrow>
          (case recipes_upsert e of
             Stored \<Rightarrow>
               (s\<lparr>recipes := (recipes s)((external_id, apiSource) \<mapsto> recipeData)\<rparr>,
                [RecipesUpsert external_id apiSource recipeData])
           | _ \<Rightarrow> (s, [RecipesUpsert external_id apiSource recipeData])))"

section \<open>The handler (lines 15-102)\<close>

text \<open>
  The body of a request after \<^verbatim>\<open>req.json()\<close>: a field that is absent is \<open>None\<close>.
\<close>

record request =
  dishName :: "string option"
  apiSource :: "string option"

text \<open>
  The JSON body of the response. \<open>Failure x\<close> is the envelope whose \<^verbatim>\<open>error\<close> is the
  message of the exception \<open>x\<close>.
\<close>

datatype envelope =
    Success recipe string
  | Failure exn

record response =
  status :: nat
  body :: envelope

record outcome =
  reply :: response
  after :: store
  events :: "event list"

text \<open>Lines 53-61: the adapter of the source.\<close>

definition fetch_by_source :: "env \<Rightarrow> string \<Rightarrow> string \<Rightarrow> upstream_request list \<times> (exn + recipe)" where
  "fetch_by_source e src d =
     (if src = ''spoonacular'' then fetchFromSpoonacular e d
      else if src = ''edamam'' then fetchFromEdamam e d
      else if src = ''themealdb'' then fetchFromTheMealDB e d
      else ([], Inl (Error ''Invalid API source'')))"

text \<open>Lines 90-102: the catch block.\<close>

definition failed :: "store \<Rightarrow> event list \<Rightarrow> exn \<Rightarrow> outcome" where
  "failed s evs x = \<lparr>reply = \<lparr>status = 500, body = Failure x\<rparr>, after = s, events = evs\<rparr>"

text \<open>
  Lines 20-88, for a request that is not the CORS preflight of lines 11-13 and whose body
  parses, with a client of the store at hand. The adapters return an object or throw, so
  the test of line 63 holds whenever it is reached. \<^verbatim>\<open>setHours(getHours() + 24)\<close>
  is 24 hours later on the clock of the function, which runs in UTC. The upsert into the
  cache is awaited inside the outer \<^verbatim>\<open>try\<close>: what it throws ends the request in the
  catch block, and what it returns is not looked at.
\<close>

text \<open>
  Lines 68-75: the cache after an upsert that did not throw. The row of the pair is
  replaced when the table stores the upsert, and the cache is as before when the table
  answers with an error, which the handler does not look at.
\<close>

definition cache_put :: "upsert_outcome \<Rightarrow> store \<Rightarrow> string \<Rightarrow> string \<Rightarrow> recipe \<Rightarrow> int \<Rightarrow> store" where
  "cache_put out s search_query api_source r t =
     (if out = Stored
      then s\<lparr>recipe_cache := (recipe_cache s)((search_query, api_source) \<mapsto>
              \<lparr>response_data = r, expires_at = t\<rparr>)\<rparr>
      else s)"

text \<open>Line 20: the default of the destructuring applies to an absent field.\<close>

definition source_of :: "request \<Rightarrow> string" where
  "source_of req = (case apiSource req of None \<Rightarrow> ''spoonacular'' | Some a \<Rightarrow> a)"

definition handle :: "env \<Rightarrow> store \<Rightarrow> request \<Rightarrow> outcome" where
  "handle e s req =
     (let src = source_of req in
      case dishName req of
        None \<Rightarrow> failed s [] (Error ''Dish name is required'')
      | Some d \<Rightarrow>
          if d = [] then failed s [] (Error ''Dish name is required'')
          else
            (let cacheKey = trim (toLowerCase d);
                 sel = CacheSelect cacheKey src (now_select e) in
             case cache_select (recipe_cache s) cacheKey src (now_select e) of
               Some cachedData \<Rightarrow>
                 \<lparr>reply = \<lparr>status = 200, body = Success (response_data cachedData) ''cache''\<rparr>,
                  after = s, events = [sel]\<rparr>
             | None \<Rightarrow>
                 (case fetch_by_source e src d of
                    (calls, Inl x) \<Rightarrow> failed s (sel # map Fetch calls) x
                  | (calls, Inr apiData) \<Rightarrow>
                      (let expiresAt = now_upsert e + 24 * 3600 * 1000;
                           put = CacheUpsert cacheKey src apiData expiresAt in
                       case cache_upsert e of
                         Threw x \<Rightarrow> failed s (sel # map Fetch calls @ [put]) x
                       | out \<Rightarrow>
                           (let s1 = cache_put out s cacheKey src apiData expiresAt;
                                st = storeRecipe e s1 apiData src
                            in \<lparr>reply = \<lparr>status = 200, body = Success apiData ''api''\<rparr>,
                                after = fst st,
                                events = sel # map Fetch calls @ [put] @ snd st\<rparr>)))))"

text \<open>The events that write to a table.\<close>

fun is_write :: "event \<Rightarrow> bool" where
  "is_write (CacheUpsert k a r t) = True"
| "is_write (RecipesUpsert x a r) = True"
| "is_write ev = False"

text \<open>The service an upstream call goes to.\<close>

fun service :: "upstream_request \<Rightarrow> string" where
  "service (SpoonacularSearch k d) = ''spoonacular''"
| "service (SpoonacularDetail k i) = ''spoonacular''"
| "service (EdamamSearch a k d) = ''edamam''"
| "service (TheMealDBSearch d) = ''themealdb''"

text \<open>The calls to upstream services among the events, in order.\<close>

fun upstream_calls :: "event list \<Rightarrow> upstream_request list" where
  "upstream_calls [] = []"
| "upstream_calls (Fetch c # evs) = c # upstream_calls evs"
| "upstream_calls (ev # evs) = upstream_calls evs"

text \<open>
  The response that ends a request whose adapter has run (lines 81-88 and 92-101): the
  failure of the adapter or of the upsert into the cache, or else the recipe.
\<close>

definition reply_for :: "env \<Rightarrow> exn + recipe \<Rightarrow> response" where
  "reply_for e res =
     (case res of
        Inl x \<Rightarrow> \<lparr>status = 500, body = Failure x\<rparr>
      | Inr r \<Rightarrow>
          (case cache_upsert e of
             Threw x \<Rightarrow> \<lparr>status = 500, body = Failure x\<rparr>
           | _ \<Rightarrow> \<lparr>status = 200, body = Success r ''api''\<rparr>))"

section \<open>The ingredient slots of a meal, as the specification words them\<close>

text \<open>
  A slot \<open>i\<close> of a meal is the pair of fields \<^verbatim>\<open>strIngredient\<close>\<open>i\<close> and
  \<^verbatim>\<open>strMeasure\<close>\<open>i\<close>. A field of a record of TheMealDB is a string, \<^verbatim>\<open>null\<close>
  or absent (\<open>textual\<close>); a slot is present when its ingredient is a string that is not
  empty after trimming.
\<close>

definition ingredient_fields :: "string list" where
  "ingredient_fields =
     [''strIngredient1'', ''strIngredient2'', ''strIngredient3'', ''strIngredient4'',
      ''strIngredient5'', ''strIngredient6'', ''strIngredient7'', ''strIngredient8'',
      ''strIngredient9'', ''strIngredient10'', ''strIngredient11'', ''strIngredient12'',
      ''strIngredient13'', ''strIngredient14'', ''strIngredient15'', ''strIngredient16'',
      ''strIngredient17'', ''strIngredient18'', ''strIngredient19'', ''strIngredient20'']"

definition measure_fields :: "string list" where
  "measure_fields =
     [''strMeasure1'', ''strMeasure2'', ''strMeasure3'', ''strMeasure4'',
      ''strMeasure5'', ''strMeasure6'', ''strMeasure7'', ''strMeasure8'',
      ''strMeasure9'', ''strMeasure10'', ''strMeasure11'', ''strMeasure12'',
      ''strMeasure13'', ''strMeasure14'', ''strMeasure15'', ''strMeasure16'',
      ''strMeasure17'', ''strMeasure18'', ''strMeasure19'', ''strMeasure20'']"

text \<open>The two fields of slot \<open>i\<close>, for \<open>i\<close> from 1 to 20, by their names.\<close>

definition strIngredient :: "(string \<times> jsval) list \<Rightarrow> nat \<Rightarrow> jsval" where
  "strIngredient kvs i = lookup kvs (ingredient_fields ! (i - 1))"

definition strMeasure :: "(string \<times> jsval) list \<Rightarrow> nat \<Rightarrow> jsval" where
  "strMeasure kvs i = lookup kvs (measure_fields ! (i - 1))"

fun textual :: "jsval \<Rightarrow> bool" where
  "textual (JStr s) = True"
| "textual v = (\<not> truthy v)"

fun text_of :: "jsval \<Rightarrow> string" where
  "text_of (JStr s) = s"
| "text_of v = []"

definition slot_present :: "(string \<times> jsval) list \<Rightarrow> nat \<Rightarrow> bool" where
  "slot_present kvs i = (trim (text_of (strIngredient kvs i)) \<noteq> [])"

definition slot_ingredient :: "(string \<times> jsval) list \<Rightarrow> nat \<Rightarrow> ingredient" where
  "slot_ingredient kvs i =
     \<lparr>name = JStr (trim (text_of (strIngredient kvs i))),
      amount = JStr (trim (text_of (strMeasure kvs i))),
      unit_f = JStr [],
      originalString =
        JStr (trim (text_of (strMeasure kvs i) @ '' '' @ text_of (strIngredient kvs i)))\<rparr>"

text \<open>
  The fields of slot \<open>i\<close> are textual where the adapter looks at them: the ingredient,
  and the measure when the slot is present.
\<close>

definition slot_textual :: "(string \<times> jsval) list \<Rightarrow> nat \<Rightarrow> bool" where
  "slot_textual kvs i =
     (textual (strIngredient kvs i) \<and> (slot_present kvs i \<longrightarrow> textual (strMeasure kvs i)))"

section \<open>Example inputs\<close>

definition chicken_meal :: "(string \<times> jsval) list" where
  "chicken_meal =
     [(''idMeal'', JStr ''52795''), (''strMeal'', JStr ''Chicken Curry''),
      (''strMealThumb'', JNull), (''strInstructions'', JStr ''Fry.''),
      (''strIngredient1'', JStr ''Chicken''), (''strMeasure1'', JStr ''500g''),
      (''strIngredient2'', JStr []), (''strMeasure2'', JStr '' ''),
      (''strIngredient3'', JNull), (''strMeasure3'', JNull)]"

definition gappy_meal :: "(string \<times> jsval) list" where
  "gappy_meal =
     [(''idMeal'', JStr ''1''), (''strMeal'', JStr ''Toast''),
      (''strIngredient1'', JStr ''Bread''), (''strMeasure1'', JStr ''2 slices''),
      (''strIngredient2'', JStr []), (''strIngredient3'', JStr ''  ''),
      (''strIngredient4'', JNull),
      (''strIngredient5'', JStr '' Butter''), (''strMeasure5'', JNull)]"

definition chicken_recipe :: recipe where
  "chicken_recipe =
     \<lparr>id_f = JStr ''52795'', title = JStr ''Chicken Curry'', image_f = JNull,
      readyInMinutes = JNull, servings = JNull,
      ingredients = [\<lparr>name = JStr ''Chicken'', amount = JStr ''500g'', unit_f = JStr [],
                      originalString = JStr ''500g Chicken''\<rparr>],
      instructions = [\<lparr>number = JNum 1, step = JStr ''Fry.''\<rparr>],
      nutrition = JNull\<rparr>"

definition salad_ingredients :: "jsval list" where
  "salad_ingredients =
     [JObj [(''food'', JStr ''salt''), (''quantity'', JNum 0), (''measure'', JNull),
            (''text'', JStr ''salt to taste'')],
      JObj [(''food'', JStr ''oil''), (''quantity'', JNum (1 / 2)),
            (''measure'', JStr ''cup''), (''text'', JStr ''1/2 cup oil'')],
      JObj [(''food'', JStr ''lettuce''), (''text'', JStr ''lettuce'')]]"

definition salad_json :: jsval where
  "salad_json =
     JObj [(''uri'', JStr ''http://www.edamam.com/ontologies/edamam.owl#recipe_b79''),
           (''label'', JStr ''Salad''), (''yield'', JNum 2),
           (''ingredients'', JArr salad_ingredients)]"

definition salad_hit :: jsval where
  "salad_hit = JObj [(''recipe'', salad_json)]"

definition salad_recipe :: recipe where
  "salad_recipe =
     \<lparr>id_f = JStr ''b79'', title = JStr ''Salad'', image_f = JUndefined,
      readyInMinutes = JNull, servings = JNum 2,
      ingredients =
        [\<lparr>name = JStr ''salt'', amount = JNum 1, unit_f = JNull,
           originalString = JStr ''salt to taste''\<rparr>,
         \<lparr>name = JStr ''oil'', amount = JNum (1 / 2), unit_f = JStr ''cup'',
           originalString = JStr ''1/2 cup oil''\<rparr>,
         \<lparr>name = JStr ''lettuce'', amount = JNum 1, unit_f = JUndefined,
           originalString = JStr ''lettuce''\<rparr>],
      instructions = [], nutrition = JNull\<rparr>"

definition pasta_detail :: jsval where
  "pasta_detail =
     JObj [(''id'', JNum 716429), (''title'', JStr ''Pasta''), (''servings'', JNum 2),
           (''extendedIngredients'', JArr
              [JObj [(''name'', JStr ''butter''), (''amount'', JNum 1), (''unit'', JStr ''tbsp''),
                     (''original'', JStr ''1 tbsp butter'')]])]"

text \<open>
  An environment with the credentials of Spoonacular and Edamam in which every service
  answers, and the same environment without any variable.
\<close>

definition full_env :: env where
  "full_env =
     \<lparr>getenv = (\<lambda>k. if k = ''SPOONACULAR_API_KEY'' then Some ''sk''
                     else if k = ''EDAMAM_APP_ID'' then Some ''id''
                     else if k = ''EDAMAM_APP_KEY'' then Some ''ek'' else None),
      fetch_json = (\<lambda>q. case q of
          SpoonacularSearch k d \<Rightarrow> Inr (JObj [(''results'', JArr [JObj [(''id'', JNum 716429)]])])
        | SpoonacularDetail k i \<Rightarrow> Inr pasta_detail
        | EdamamSearch a k d \<Rightarrow> Inr (JObj [(''hits'', JArr [salad_hit])])
        | TheMealDBSearch d \<Rightarrow> Inr (JObj [(''meals'', JArr [JObj chicken_meal])])),
      now_select = 1000, now_upsert = 1005, cache_upsert = Stored, recipes_upsert = Stored,
      number_toString = (\<lambda>n. show_nat (nat \<lfloor>n\<rfloor>))\<rparr>"

definition gappy_env :: env where
  "gappy_env = full_env\<lparr>fetch_json := (\<lambda>q. Inr (JObj [(''meals'', JArr [JObj gappy_meal])]))\<rparr>"

text \<open>A meal whose only ingredients are in the slots 10, 12 and 20.\<close>

definition late_meal :: "(string \<times> jsval) list" where
  "late_meal =
     [(''idMeal'', JStr ''2''), (''strMeal'', JStr ''Soup''),
      (''strIngredient1'', JStr []), (''strIngredient2'', JStr ''Pepper''),
      (''strIngredient10'', JStr ''Leek''), (''strMeasure10'', JStr ''1''),
      (''strIngredient12'', JStr ''Salt''), (''strMeasure12'', JStr '' pinch ''),
      (''strIngredient20'', JStr ''Water''), (''strMeasure20'', JStr ''1 l''),
      (''strIngredient21'', JStr ''Cream'')]"

definition late_env :: env where
  "late_env = full_env\<lparr>fetch_json := (\<lambda>q. Inr (JObj [(''meals'', JArr [JObj late_meal])]))\<rparr>"



definition pasta_recipe :: recipe where
  "pasta_recipe =
     \<lparr>id_f = JNum 716429, title = JStr ''Pasta'', image_f = JUndefined,
      readyInMinutes = JUndefined, servings = JNum 2,
      ingredients = [\<lparr>name = JStr ''butter'', amount = JNum 1, unit_f = JStr ''tbsp'',
                      originalString = JStr ''1 tbsp butter''\<rparr>],
      instructions = [], nutrition = JNull\<rparr>"

definition bare_env :: env where
  "bare_env = full_env\<lparr>getenv := (\<lambda>k. None)\<rparr>"

definition empty_store :: store where
  "empty_store = \<lparr>recipe_cache = (\<lambda>k. None), recipes = (\<lambda>k. None)\<rparr>"

text \<open>A store whose cache holds one row, for chicken curry from TheMealDB, expiring at \<open>t\<close>.\<close>

definition cached_store :: "int \<Rightarrow> store" where
  "cached_store t =
     \<lparr>recipe_cache = (\<lambda>k. if k = (''chicken curry'', ''themealdb'')
                            then Some \<lparr>response_data = chicken_recipe, expires_at = t\<rparr> else None),
      recipes = (\<lambda>k. None)\<rparr>"

definition chicken_request :: request where
  "chicken_request = \<lparr>dishName = Some '' Chicken Curry'', apiSource = Some ''themealdb''\<rparr>"

text \<open>A cache written by the handler alone holds rows of the three sources only.\<close>

definition sources_known :: "(string \<times> string \<Rightarrow> cache_row option) \<Rightarrow> bool" where
  "sources_known c =
     (\<forall>k a. c (k, a) \<noteq> None \<longrightarrow> a = ''spoonacular'' \<or> a = ''edamam'' \<or> a = ''themealdb'')"

section \<open>Properties\<close>

subsection \<open>The cache key\<close>

lemma isWhitespace_toLowerChar: "isWhitespace (toLowerChar c) = isWhitespace c"
  by (auto simp: isWhitespace_def toLowerChar_def Let_def)

lemma dropWhile_ws_lower:
  "dropWhile isWhitespace (map toLowerChar s) = map toLowerChar (dropWhile isWhitespace s)"
  by (induction s) (simp_all add: isWhitespace_toLowerChar)

text \<open>
  The program lowers the case first and trims then (line 29); the other order gives the
  same key.
\<close>

lemma trim_toLowerCase: "trim (toLowerCase s) = toLowerCase (trim s)"
  by (simp add: trim_def toLowerCase_def dropWhile_ws_lower rev_map)

subsection \<open>The branches of the handler\<close>

lemma filter_write_map: "filter is_write (map Fetch cs) = []"
  by (induction cs) simp_all

lemma handle_invalid:
  "dishName req = None \<or> dishName req = Some [] \<Longrightarrow>
   handle e s req = failed s [] (Error ''Dish name is required'')"
  by (auto simp: handle_def)

lemma handle_hit:
  "dishName req = Some d \<Longrightarrow> d \<noteq> [] \<Longrightarrow>
   cache_select (recipe_cache s) (trim (toLowerCase d)) (source_of req) (now_select e) = Some row \<Longrightarrow>
   handle e s req =
     \<lparr>reply = \<lparr>status = 200, body = Success (response_data row) ''cache''\<rparr>, after = s,
      events = [CacheSelect (trim (toLowerCase d)) (source_of req) (now_select e)]\<rparr>"
  by (simp add: handle_def Let_def)

lemma handle_miss_fail:
  "dishName req = Some d \<Longrightarrow> d \<noteq> [] \<Longrightarrow>
   cache_select (recipe_cache s) (trim (toLowerCase d)) (source_of req) (now_select e) = None \<Longrightarrow>
   fetch_by_source e (source_of req) d = (calls, Inl x) \<Longrightarrow>
   handle e s req =
     failed s (CacheSelect (trim (toLowerCase d)) (source_of req) (now_select e) # map Fetch calls) x"
  by (simp add: handle_def Let_def)

lemma handle_miss_threw:
  "dishName req = Some d \<Longrightarrow> d \<noteq> [] \<Longrightarrow>
   cache_select (recipe_cache s) (trim (toLowerCase d)) (source_of req) (now_select e) = None \<Longrightarrow>
   fetch_by_source e (source_of req) d = (calls, Inr r) \<Longrightarrow>
   cache_upsert e = Threw x \<Longrightarrow>
   handle e s req =
     failed s (CacheSelect (trim (toLowerCase d)) (source_of req) (now_select e) # map Fetch calls
               @ [CacheUpsert (trim (toLowerCase d)) (source_of req) r (now_upsert e + 86400000)]) x"
  by (simp add: handle_def Let_def)

lemma handle_miss_ok:
  "dishName req = Some d \<Longrightarrow> d \<noteq> [] \<Longrightarrow>
   cache_select (recipe_cache s) (trim (toLowerCase d)) (source_of req) (now_select e) = None \<Longrightarrow>
   fetch_by_source e (source_of req) d = (calls, Inr r) \<Longrightarrow>
   cache_upsert e = Stored \<or> cache_upsert e = Rejected \<Longrightarrow>
   handle e s req =
     \<lparr>reply = \<lparr>status = 200, body = Success r ''api''\<rparr>,
      after = fst (storeRecipe e
                (cache_put (cache_upsert e) s (trim (toLowerCase d)) (source_of req) r
                   (now_upsert e + 86400000)) r (source_of req)),
      events = CacheSelect (trim (toLowerCase d)) (source_of req) (now_select e) # map Fetch calls
               @ [CacheUpsert (trim (toLowerCase d)) (source_of req) r (now_upsert e + 86400000)]
               @ snd (storeRecipe e
                (cache_put (cache_upsert e) s (trim (toLowerCase d)) (source_of req) r
                   (now_upsert e + 86400000)) r (source_of req))\<rparr>"
  by (auto simp: handle_def Let_def)

lemma fetch_by_source_upsert_irrelevant:
  "fetch_by_source (e\<lparr>recipes_upsert := out\<rparr>) src d = fetch_by_source e src d"
  by (simp add: fetch_by_source_def fetchFromSpoonacular_def fetchFromEdamam_def
      fetchFromTheMealDB_def Let_def split: option.split sum.split)

subsection \<open>The repository write\<close>

text \<open>
  C8. Whatever the table \<^verbatim>\<open>recipes\<close> does with the upsert (it stores the row, answers
  with an error or throws), the response of the handler, that is its status and its
  envelope with the success flag and the data, is the one it gives when the row is stored;
  so is the cache it leaves.
\<close>

theorem repository_failure_leaves_reply:
  "reply (handle (e\<lparr>recipes_upsert := out\<rparr>) s req)
     = reply (handle (e\<lparr>recipes_upsert := Stored\<rparr>) s req)
   \<and> recipe_cache (after (handle (e\<lparr>recipes_upsert := out\<rparr>) s req))
     = recipe_cache (after (handle (e\<lparr>recipes_upsert := Stored\<rparr>) s req))"
  by (simp add: handle_def Let_def failed_def fetch_by_source_upsert_irrelevant storeRecipe_def
      cache_put_def split: option.split sum.split prod.split upsert_outcome.split)

lemma key_chicken: "toLowerCase (trim '' Chicken Curry'') = ''chicken curry''"
  by code_simp

lemma fetch_chicken:
  "fetch_by_source full_env ''themealdb'' '' Chicken Curry''
     = ([TheMealDBSearch '' Chicken Curry''], Inr chicken_recipe)"
  by code_simp

lemma cache_storeRecipe: "recipe_cache (fst (storeRecipe e s r a)) = recipe_cache s"
  by (simp add: storeRecipe_def split: sum.split upsert_outcome.split)

text \<open>The response and the events of a request that misses do not depend on the store.\<close>

lemma handle_miss_any_store:
  assumes "dishName req = Some d" and "d \<noteq> []"
    and "cache_select (recipe_cache s) (trim (toLowerCase d)) (source_of req) (now_select e) = None"
    and "cache_select (recipe_cache s') (trim (toLowerCase d)) (source_of req) (now_select e) = None"
  shows "reply (handle e s req) = reply (handle e s' req)"
    and "events (handle e s req) = events (handle e s' req)"
  using assms
  by (simp_all add: handle_def Let_def failed_def storeRecipe_def
      split: sum.split prod.split upsert_outcome.split)

subsection \<open>The cache\<close>

text \<open>
  C1. A request with a dish name whose key, the lowered and trimmed dish name with the
  source, has a row in the cache: when the row expires after the time of the query, the
  handler answers with status 200 and the envelope of origin \<^verbatim>\<open>cache\<close> that carries
  the recipe of the row, leaves both tables as they are, calls no upstream service and
  writes to no table. When the row has expired, the request is a miss: the response and
  the events are those of the same request on the cache without the row.
\<close>
theorem cache_hit_served_from_cache:
  assumes "dishName req = Some d" and "d \<noteq> []"
    and "recipe_cache s (toLowerCase (trim d), source_of req) = Some row"
  shows "(now_select e < expires_at row \<longrightarrow>
            reply (handle e s req)
              = \<lparr>status = 200, body = Success (response_data row) ''cache''\<rparr>
          \<and> after (handle e s req) = s
          \<and> upstream_calls (events (handle e s req)) = []
          \<and> filter is_write (events (handle e s req)) = [])
       \<and> (expires_at row \<le> now_select e \<longrightarrow>
            reply (handle e s req)
              = reply (handle e (s\<lparr>recipe_cache :=
                   (recipe_cache s)((toLowerCase (trim d), source_of req) := None)\<rparr>) req)
          \<and> events (handle e s req)
              = events (handle e (s\<lparr>recipe_cache :=
                   (recipe_cache s)((toLowerCase (trim d), source_of req) := None)\<rparr>) req))"
proof (intro conjI impI)
  assume live: "now_select e < expires_at row"
  have sel: "cache_select (recipe_cache s) (trim (toLowerCase d)) (source_of req) (now_select e)
               = Some row"
    using assms(3) live by (simp add: cache_select_def trim_toLowerCase)
  note h = handle_hit [OF assms(1,2) sel]
  show "reply (handle e s req) = \<lparr>status = 200, body = Success (response_data row) ''cache''\<rparr>"
    by (simp add: h)
  show "after (handle e s req) = s" by (simp add: h)
  show "upstream_calls (events (handle e s req)) = []" by (simp add: h)
  show "filter is_write (events (handle e s req)) = []" by (simp add: h)
next
  assume old: "expires_at row \<le> now_select e"
  let ?s' = "s\<lparr>recipe_cache := (recipe_cache s)((toLowerCase (trim d), source_of req) := None)\<rparr>"
  have m1: "cache_select (recipe_cache s) (trim (toLowerCase d)) (source_of req) (now_select e) = None"
    using assms(3) old by (simp add: cache_select_def trim_toLowerCase)
  have m2: "cache_select (recipe_cache ?s') (trim (toLowerCase d)) (source_of req) (now_select e) = None"
    by (simp add: cache_select_def trim_toLowerCase)
  from handle_miss_any_store [OF assms(1,2) m1 m2]
  show "reply (handle e s req) = reply (handle e ?s' req)"
    and "events (handle e s req) = events (handle e ?s' req)" .
qed

theorem cache_hit_served_from_cache_witness:
  "reply (handle full_env (cached_store 1001) chicken_request)
     = \<lparr>status = 200, body = Success chicken_recipe ''cache''\<rparr>
   \<and> after (handle full_env (cached_store 1001) chicken_request) = cached_store 1001
   \<and> upstream_calls (events (handle full_env (cached_store 1001) chicken_request)) = []
   \<and> filter is_write (events (handle full_env (cached_store 1001) chicken_request)) = []
   \<and> reply (handle full_env (cached_store 1000) chicken_request)
     = reply (handle full_env ((cached_store 1000)\<lparr>recipe_cache :=
          (recipe_cache (cached_store 1000))((''chicken curry'', ''themealdb'') := None)\<rparr>)
          chicken_request)"
proof -
  have d: "dishName chicken_request = Some '' Chicken Curry''"
    by (simp add: chicken_request_def)
  have src: "source_of chicken_request = ''themealdb''"
    by (simp add: source_of_def chicken_request_def)
  have row: "recipe_cache (cached_store t)
               (toLowerCase (trim '' Chicken Curry''), source_of chicken_request)
             = Some \<lparr>response_data = chicken_recipe, expires_at = t\<rparr>" for t
    by (simp add: key_chicken [unfolded trim_toLowerCase] src cached_store_def)
  have ne: "'' Chicken Curry'' \<noteq> []" by simp
  from cache_hit_served_from_cache [OF d ne row, of full_env 1001]
       cache_hit_served_from_cache [OF d ne row, of full_env 1000]
  show ?thesis
    by (simp add: full_env_def key_chicken [unfolded trim_toLowerCase] src)
qed

text \<open>
  C3. A request that misses the cache and whose adapter throws \<open>x\<close> (no recipe found,
  credentials not configured, a failure of the transport or of the parsing): the handler
  answers with status 500 and the failure envelope of \<open>x\<close>, and leaves both tables as
  they are, having issued no write.
\<close>
theorem adapter_failure_changes_nothing:
  assumes "dishName req = Some d" and "d \<noteq> []"
    and "cache_select (recipe_cache s) (toLowerCase (trim d)) (source_of req) (now_select e) = None"
    and "fetch_by_source e (source_of req) d = (calls, Inl x)"
  shows "reply (handle e s req) = \<lparr>status = 500, body = Failure x\<rparr>
       \<and> after (handle e s req) = s
       \<and> filter is_write (events (handle e s req)) = []"
proof -
  note h = handle_miss_fail [OF assms(1,2) assms(3) [folded trim_toLowerCase] assms(4)]
  show ?thesis by (simp add: h failed_def filter_write_map)
qed

lemma fetch_pasta_bare:
  "fetch_by_source bare_env ''spoonacular'' ''Pasta''
     = ([], Inl (Error ''Spoonacular API key not configured''))"
  by code_simp

theorem adapter_failure_changes_nothing_witness:
  "reply (handle bare_env empty_store \<lparr>dishName = Some ''Pasta'', apiSource = None\<rparr>)
     = \<lparr>status = 500, body = Failure (Error ''Spoonacular API key not configured'')\<rparr>
   \<and> after (handle bare_env empty_store \<lparr>dishName = Some ''Pasta'', apiSource = None\<rparr>)
     = empty_store
   \<and> filter is_write
        (events (handle bare_env empty_store \<lparr>dishName = Some ''Pasta'', apiSource = None\<rparr>)) = []"
proof -
  let ?req = "\<lparr>dishName = Some ''Pasta'', apiSource = None\<rparr>"
  have d: "dishName ?req = Some ''Pasta''" by simp
  have ne: "''Pasta'' \<noteq> []" by simp
  have src: "source_of ?req = ''spoonacular''" by (simp add: source_of_def)
  have miss: "cache_select (recipe_cache empty_store) (toLowerCase (trim ''Pasta''))
                (source_of ?req) (now_select bare_env) = None"
    by (simp add: cache_select_def empty_store_def)
  have f: "fetch_by_source bare_env (source_of ?req) ''Pasta''
             = ([], Inl (Error ''Spoonacular API key not configured''))"
    by (simp add: src fetch_pasta_bare)
  from adapter_failure_changes_nothing [OF d ne miss f] show ?thesis .
qed

subsection \<open>The dish name\<close>

text \<open>
  C4. The guard of line 22 is \<^verbatim>\<open>!dishName\<close>: it throws for an absent and for an
  empty dish name (\<open>handle_invalid\<close>, with no event at all), and lets a dish name of
  blanks through. For the dish name of two blanks the handler reads the cache under the
  empty key, calls TheMealDB, writes both tables and answers with the recipe.
\<close>
theorem blank_dish_name_not_rejected:
  "reply (handle full_env empty_store \<lparr>dishName = Some ''  '', apiSource = Some ''themealdb''\<rparr>)
     = \<lparr>status = 200, body = Success chicken_recipe ''api''\<rparr>
   \<and> events (handle full_env empty_store \<lparr>dishName = Some ''  '', apiSource = Some ''themealdb''\<rparr>)
     = [CacheSelect [] ''themealdb'' 1000, Fetch (TheMealDBSearch ''  ''),
        CacheUpsert [] ''themealdb'' chicken_recipe 86401005,
        RecipesUpsert ''52795'' ''themealdb'' chicken_recipe]"
  by code_simp

subsection \<open>Writing a recipe through\<close>

lemma printable_examples:
  "\<not> printable (JObj [(''toString'', JNum 1)]) \<and> printable (JObj [(''id'', JNum 1)])
   \<and> \<not> printable (JArr [JNum 1, JObj [(''toString'', JNull)]])
   \<and> printable (JArr [JNull, JStr ''a'']) \<and> printable JUndefined \<and> printable (JNum 1)"
  by simp

lemma to_str_examples:
  "to_str nf (JStr ''52795'') = ''52795'' \<and> to_str nf (JNum 5) = nf 5
   \<and> to_str nf (JBool True) = ''true'' \<and> to_str nf (JBool False) = ''false''
   \<and> to_str nf (JArr [JStr ''a'', JNull, JUndefined, JArr [JStr ''b'', JStr ''c'']]) = ''a,,,b,c''
   \<and> to_str nf (JObj []) = ''[object Object]''"
  by simp

lemma js_toString_cases:
  "js_toString nf JUndefined = Inl (TypeError ''toString'')"
  "js_toString nf JNull = Inl (TypeError ''toString'')"
  "js_toString nf (JObj [(''toString'', JStr ''x'')]) = Inl (TypeError ''toString'')"
  "js_toString nf (JStr i) = Inr i"
  "js_toString nf (JNum n) = Inr (nf n)"
  by (simp_all add: js_toString_def)






lemma fetch_pasta:
  "fetch_by_source full_env ''spoonacular'' ''Pasta''
     = ([SpoonacularSearch ''sk'' ''Pasta'', SpoonacularDetail ''sk'' (JNum 716429)],
        Inr pasta_recipe)"
  by code_simp


lemma key_salad_pasta:
  "toLowerCase (trim ''Salad'') = ''salad'' \<and> toLowerCase (trim ''Pasta'') = ''pasta''"
  by code_simp



lemma empty_store_miss: "cache_select (recipe_cache empty_store) k a t = None"
  by (simp add: cache_select_def empty_store_def)




subsection \<open>The choice of the adapter\<close>

lemma upstream_calls_map_Fetch: "upstream_calls (map Fetch cs @ evs) = cs @ upstream_calls evs"
  by (induction cs) simp_all

lemma upstream_calls_storeRecipe: "upstream_calls (snd (storeRecipe e s r a)) = []"
  by (simp add: storeRecipe_def split: sum.split upsert_outcome.split)

lemma spoonacular_calls: "c \<in> set (fst (fetchFromSpoonacular e d)) \<Longrightarrow> service c = ''spoonacular''"
  by (auto simp: fetchFromSpoonacular_def Let_def split: option.splits sum.splits if_splits)

lemma edamam_calls: "c \<in> set (fst (fetchFromEdamam e d)) \<Longrightarrow> service c = ''edamam''"
  by (auto simp: fetchFromEdamam_def Let_def split: option.splits sum.splits if_splits)

lemma themealdb_calls: "c \<in> set (fst (fetchFromTheMealDB e d)) \<Longrightarrow> service c = ''themealdb''"
  by (auto simp: fetchFromTheMealDB_def Let_def)

lemma handle_miss:
  assumes "dishName req = Some d" and "d \<noteq> []"
    and "cache_select (recipe_cache s) (trim (toLowerCase d)) (source_of req) (now_select e) = None"
  shows "upstream_calls (events (handle e s req)) = fst (fetch_by_source e (source_of req) d)"
    and "reply (handle e s req) = reply_for e (snd (fetch_by_source e (source_of req) d))"
proof -
  obtain calls res where f: "fetch_by_source e (source_of req) d = (calls, res)"
    by (cases "fetch_by_source e (source_of req) d")
  have "upstream_calls (events (handle e s req)) = calls
        \<and> reply (handle e s req) = reply_for e res"
  proof (cases res)
    case (Inl x)
    with f handle_miss_fail [OF assms] show ?thesis
      using upstream_calls_map_Fetch [of calls "[]"] by (simp add: failed_def reply_for_def)
  next
    case (Inr r)
    show ?thesis
    proof (cases "cache_upsert e")
      case (Threw x)
      with handle_miss_threw [OF assms f [unfolded Inr]] show ?thesis
        by (simp add: failed_def reply_for_def Inr upstream_calls_map_Fetch)
    next
      case Stored
      with handle_miss_ok [OF assms f [unfolded Inr]] show ?thesis
        by (simp add: reply_for_def Inr upstream_calls_map_Fetch upstream_calls_storeRecipe)
    next
      case Rejected
      with handle_miss_ok [OF assms f [unfolded Inr]] show ?thesis
        by (simp add: reply_for_def Inr upstream_calls_map_Fetch upstream_calls_storeRecipe)
    qed
  qed
  with f show "upstream_calls (events (handle e s req)) = fst (fetch_by_source e (source_of req) d)"
    and "reply (handle e s req) = reply_for e (snd (fetch_by_source e (source_of req) d))"
    by simp_all
qed

lemma handle_unknown_source:
  assumes "dishName req = Some d" and "d \<noteq> []" and "apiSource req = Some a"
    and "a \<noteq> ''spoonacular''" and "a \<noteq> ''edamam''" and "a \<noteq> ''themealdb''"
    and "cache_select (recipe_cache s) (toLowerCase (trim d)) a (now_select e) = None"
  shows "handle e s req
           = failed s [CacheSelect (toLowerCase (trim d)) a (now_select e)]
               (Error ''Invalid API source'')"
proof -
  have src: "source_of req = a" using assms(3) by (simp add: source_of_def)
  have f: "fetch_by_source e (source_of req) d = ([], Inl (Error ''Invalid API source''))"
    using assms(4-6) by (simp add: src fetch_by_source_def)
  from handle_miss_fail [OF assms(1,2) assms(7) [folded trim_toLowerCase src] f]
  show ?thesis by (simp add: src trim_toLowerCase)
qed

lemma unknown_source_misses:
  "sources_known c \<Longrightarrow> a \<noteq> ''spoonacular'' \<Longrightarrow> a \<noteq> ''edamam'' \<Longrightarrow> a \<noteq> ''themealdb'' \<Longrightarrow>
   cache_select c k a t = None"
  by (auto simp: sources_known_def cache_select_def split: option.splits)

text \<open>
  C5. A request with a dish name is served by the adapter its \<^verbatim>\<open>apiSource\<close> names.
  When the cache has no live row of the key: for \<^verbatim>\<open>spoonacular\<close> and for an absent
  source, for \<^verbatim>\<open>edamam\<close> and for \<^verbatim>\<open>themealdb\<close> (the premium, the nutrition and
  the free source) the upstream calls of the handler are the calls of that adapter, all of
  them to that service, and the response is made from what that adapter returns; for any
  other value the handler answers with status 500 and the failure envelope of
  \<^verbatim>\<open>Invalid API source\<close>, does nothing but read the cache, and leaves the tables as
  they are. A cache that holds rows of the three sources only has no live row for another
  value, so there the last holds for every other value.
\<close>

theorem dispatch_by_source:
  assumes "dishName req = Some d" and "d \<noteq> []"
  shows "((apiSource req = None \<or> apiSource req = Some ''spoonacular'')
            \<and> cache_select (recipe_cache s) (toLowerCase (trim d)) ''spoonacular'' (now_select e)
                = None \<longrightarrow>
            upstream_calls (events (handle e s req)) = fst (fetchFromSpoonacular e d)
          \<and> reply (handle e s req) = reply_for e (snd (fetchFromSpoonacular e d))
          \<and> (\<forall>c \<in> set (upstream_calls (events (handle e s req))). service c = ''spoonacular''))
       \<and> (apiSource req = Some ''edamam''
            \<and> cache_select (recipe_cache s) (toLowerCase (trim d)) ''edamam'' (now_select e)
                = None \<longrightarrow>
            upstream_calls (events (handle e s req)) = fst (fetchFromEdamam e d)
          \<and> reply (handle e s req) = reply_for e (snd (fetchFromEdamam e d))
          \<and> (\<forall>c \<in> set (upstream_calls (events (handle e s req))). service c = ''edamam''))
       \<and> (apiSource req = Some ''themealdb''
            \<and> cache_select (recipe_cache s) (toLowerCase (trim d)) ''themealdb'' (now_select e)
                = None \<longrightarrow>
            upstream_calls (events (handle e s req)) = fst (fetchFromTheMealDB e d)
          \<and> reply (handle e s req) = reply_for e (snd (fetchFromTheMealDB e d))
          \<and> (\<forall>c \<in> set (upstream_calls (events (handle e s req))). service c = ''themealdb''))
       \<and> (\<forall>a. apiSource req = Some a
            \<and> a \<noteq> ''spoonacular'' \<and> a \<noteq> ''edamam'' \<and> a \<noteq> ''themealdb''
            \<and> (cache_select (recipe_cache s) (toLowerCase (trim d)) a (now_select e) = None
                \<or> sources_known (recipe_cache s)) \<longrightarrow>
            reply (handle e s req) = \<lparr>status = 500, body = Failure (Error ''Invalid API source'')\<rparr>
          \<and> events (handle e s req) = [CacheSelect (toLowerCase (trim d)) a (now_select e)]
          \<and> upstream_calls (events (handle e s req)) = []
          \<and> after (handle e s req) = s)"
proof -
  have sp: "upstream_calls (events (handle e s req)) = fst (fetchFromSpoonacular e d)
          \<and> reply (handle e s req) = reply_for e (snd (fetchFromSpoonacular e d))
          \<and> (\<forall>c \<in> set (upstream_calls (events (handle e s req))). service c = ''spoonacular'')"
    if a: "apiSource req = None \<or> apiSource req = Some ''spoonacular''"
      and m: "cache_select (recipe_cache s) (toLowerCase (trim d)) ''spoonacular'' (now_select e)
                = None"
  proof -
    have src: "source_of req = ''spoonacular''" using a by (auto simp: source_of_def)
    note h = handle_miss [OF assms m [folded trim_toLowerCase src]]
    show ?thesis using spoonacular_calls by (simp add: h src fetch_by_source_def)
  qed
  have ed: "upstream_calls (events (handle e s req)) = fst (fetchFromEdamam e d)
          \<and> reply (handle e s req) = reply_for e (snd (fetchFromEdamam e d))
          \<and> (\<forall>c \<in> set (upstream_calls (events (handle e s req))). service c = ''edamam'')"
    if a: "apiSource req = Some ''edamam''"
      and m: "cache_select (recipe_cache s) (toLowerCase (trim d)) ''edamam'' (now_select e) = None"
  proof -
    have src: "source_of req = ''edamam''" using a by (simp add: source_of_def)
    note h = handle_miss [OF assms m [folded trim_toLowerCase src]]
    show ?thesis using edamam_calls by (simp add: h src fetch_by_source_def)
  qed
  have md: "upstream_calls (events (handle e s req)) = fst (fetchFromTheMealDB e d)
          \<and> reply (handle e s req) = reply_for e (snd (fetchFromTheMealDB e d))
          \<and> (\<forall>c \<in> set (upstream_calls (events (handle e s req))). service c = ''themealdb'')"
    if a: "apiSource req = Some ''themealdb''"
      and m: "cache_select (recipe_cache s) (toLowerCase (trim d)) ''themealdb'' (now_select e)
                = None"
  proof -
    have src: "source_of req = ''themealdb''" using a by (simp add: source_of_def)
    note h = handle_miss [OF assms m [folded trim_toLowerCase src]]
    show ?thesis using themealdb_calls by (simp add: h src fetch_by_source_def)
  qed
  have un: "reply (handle e s req) = \<lparr>status = 500, body = Failure (Error ''Invalid API source'')\<rparr>
          \<and> events (handle e s req) = [CacheSelect (toLowerCase (trim d)) a (now_select e)]
          \<and> upstream_calls (events (handle e s req)) = []
          \<and> after (handle e s req) = s"
    if a: "apiSource req = Some a" "a \<noteq> ''spoonacular''" "a \<noteq> ''edamam''" "a \<noteq> ''themealdb''"
      and m: "cache_select (recipe_cache s) (toLowerCase (trim d)) a (now_select e) = None
              \<or> sources_known (recipe_cache s)" for a
  proof -
    from m unknown_source_misses [OF _ a(2-4)]
    have "cache_select (recipe_cache s) (toLowerCase (trim d)) a (now_select e) = None" by blast
    from handle_unknown_source [OF assms a this] show ?thesis by (simp add: failed_def)
  qed
  from sp ed md un show ?thesis by blast
qed

lemma adapters_full_env:
  "fetchFromSpoonacular full_env ''Pasta''
     = ([SpoonacularSearch ''sk'' ''Pasta'', SpoonacularDetail ''sk'' (JNum 716429)],
        Inr pasta_recipe)"
  "fst (fetchFromEdamam full_env ''Salad'') = [EdamamSearch ''id'' ''ek'' ''Salad'']"
  "fst (fetchFromTheMealDB full_env '' Chicken Curry'') = [TheMealDBSearch '' Chicken Curry'']"
  using fetch_pasta fetch_chicken
  by (simp_all add: fetch_by_source_def fetchFromEdamam_def fetchFromTheMealDB_def full_env_def
      Let_def)

lemma empty_store_known: "sources_known (recipe_cache empty_store)"
  by (simp add: sources_known_def empty_store_def)

theorem dispatch_by_source_witness:
  "upstream_calls (events (handle full_env empty_store
       \<lparr>dishName = Some ''Pasta'', apiSource = None\<rparr>))
     = [SpoonacularSearch ''sk'' ''Pasta'', SpoonacularDetail ''sk'' (JNum 716429)]
   \<and> reply (handle full_env empty_store \<lparr>dishName = Some ''Pasta'', apiSource = None\<rparr>)
     = \<lparr>status = 200, body = Success pasta_recipe ''api''\<rparr>
   \<and> upstream_calls (events (handle full_env empty_store
       \<lparr>dishName = Some ''Pasta'', apiSource = Some ''spoonacular''\<rparr>))
     = [SpoonacularSearch ''sk'' ''Pasta'', SpoonacularDetail ''sk'' (JNum 716429)]
   \<and> upstream_calls (events (handle full_env empty_store
       \<lparr>dishName = Some ''Salad'', apiSource = Some ''edamam''\<rparr>))
     = [EdamamSearch ''id'' ''ek'' ''Salad'']
   \<and> upstream_calls (events (handle full_env empty_store chicken_request))
     = [TheMealDBSearch '' Chicken Curry'']
   \<and> reply (handle full_env empty_store \<lparr>dishName = Some ''Pasta'', apiSource = Some ''premium''\<rparr>)
     = \<lparr>status = 500, body = Failure (Error ''Invalid API source'')\<rparr>
   \<and> events (handle full_env empty_store \<lparr>dishName = Some ''Pasta'', apiSource = Some ''premium''\<rparr>)
     = [CacheSelect ''pasta'' ''premium'' 1000]
   \<and> reply (handle full_env empty_store \<lparr>dishName = Some ''Pasta'', apiSource = Some ''free''\<rparr>)
     = \<lparr>status = 500, body = Failure (Error ''Invalid API source'')\<rparr>"
proof -
  let ?p = "\<lparr>dishName = Some ''Pasta'', apiSource = None\<rparr>"
  let ?q = "\<lparr>dishName = Some ''Pasta'', apiSource = Some ''spoonacular''\<rparr>"
  let ?s = "\<lparr>dishName = Some ''Salad'', apiSource = Some ''edamam''\<rparr>"
  let ?u = "\<lparr>dishName = Some ''Pasta'', apiSource = Some ''premium''\<rparr>"
  let ?v = "\<lparr>dishName = Some ''Pasta'', apiSource = Some ''free''\<rparr>"
  have c: "cache_upsert full_env = Stored" "now_select full_env = 1000"
    by (simp_all add: full_env_def)
  have 1: "upstream_calls (events (handle full_env empty_store ?p))
             = [SpoonacularSearch ''sk'' ''Pasta'', SpoonacularDetail ''sk'' (JNum 716429)]
           \<and> reply (handle full_env empty_store ?p)
             = \<lparr>status = 200, body = Success pasta_recipe ''api''\<rparr>"
    using dispatch_by_source [of ?p "''Pasta''" empty_store full_env]
    by (simp add: empty_store_miss adapters_full_env reply_for_def c)
  have 2: "upstream_calls (events (handle full_env empty_store ?q))
             = [SpoonacularSearch ''sk'' ''Pasta'', SpoonacularDetail ''sk'' (JNum 716429)]"
    using dispatch_by_source [of ?q "''Pasta''" empty_store full_env]
    by (simp add: empty_store_miss adapters_full_env)
  have 3: "upstream_calls (events (handle full_env empty_store ?s))
             = [EdamamSearch ''id'' ''ek'' ''Salad'']"
    using dispatch_by_source [of ?s "''Salad''" empty_store full_env]
    by (simp add: empty_store_miss adapters_full_env)
  have 4: "upstream_calls (events (handle full_env empty_store chicken_request))
             = [TheMealDBSearch '' Chicken Curry'']"
    using dispatch_by_source [of chicken_request "'' Chicken Curry''" empty_store full_env]
    by (simp add: empty_store_miss adapters_full_env chicken_request_def)
  have 5: "reply (handle full_env empty_store ?u)
             = \<lparr>status = 500, body = Failure (Error ''Invalid API source'')\<rparr>
           \<and> events (handle full_env empty_store ?u) = [CacheSelect ''pasta'' ''premium'' 1000]"
    using dispatch_by_source [of ?u "''Pasta''" empty_store full_env]
    by (simp add: empty_store_miss key_salad_pasta c)
  have 6: "reply (handle full_env empty_store ?v)
             = \<lparr>status = 500, body = Failure (Error ''Invalid API source'')\<rparr>"
    using dispatch_by_source [of ?v "''Pasta''" empty_store full_env]
    by (simp add: empty_store_known)
  from 1 2 3 4 5 6 show ?thesis by blast
qed

lemma fetch_by_source_Inr_known:
  "fetch_by_source e src d = (calls, Inr r) \<Longrightarrow>
   src = ''spoonacular'' \<or> src = ''edamam'' \<or> src = ''themealdb''"
  by (auto simp: fetch_by_source_def split: if_splits)

lemma handle_keeps_sources_known:
  assumes "sources_known (recipe_cache s)"
  shows "sources_known (recipe_cache (after (handle e s req)))"
proof (cases "dishName req")
  case None
  then show ?thesis using assms by (simp add: handle_invalid failed_def)
next
  case (Some d)
  show ?thesis
  proof (cases "d = []")
    case True
    with Some show ?thesis using assms by (simp add: handle_invalid failed_def)
  next
    case False
    show ?thesis
    proof (cases "cache_select (recipe_cache s) (trim (toLowerCase d)) (source_of req) (now_select e)")
      case (Some row)
      from handle_hit [OF \<open>dishName req = Some d\<close> False Some] assms show ?thesis by simp
    next
      case None
      obtain calls res where f: "fetch_by_source e (source_of req) d = (calls, res)"
        by (cases "fetch_by_source e (source_of req) d")
      show ?thesis
      proof (cases res)
        case (Inl x)
        from handle_miss_fail [OF \<open>dishName req = Some d\<close> False None f [unfolded Inl]] assms
        show ?thesis by (simp add: failed_def)
      next
        case (Inr r)
        note k = fetch_by_source_Inr_known [OF f [unfolded Inr]]
        show ?thesis
        proof (cases "cache_upsert e")
          case (Threw x)
          from handle_miss_threw [OF \<open>dishName req = Some d\<close> False None f [unfolded Inr] Threw]
            assms
          show ?thesis by (simp add: failed_def)
        next
          case Stored
          with k handle_miss_ok [OF \<open>dishName req = Some d\<close> False None f [unfolded Inr]] assms
          show ?thesis by (auto simp: cache_storeRecipe cache_put_def sources_known_def)
        next
          case Rejected
          with k handle_miss_ok [OF \<open>dishName req = Some d\<close> False None f [unfolded Inr]] assms
          show ?thesis by (auto simp: cache_storeRecipe cache_put_def sources_known_def)
        qed
      qed
    qed
  qed
qed

subsection \<open>The ingredients of TheMealDB\<close>

lemma trim_Nil: "trim [] = []"
  by (simp add: trim_def)

lemma mealdb_entry_textual:
  assumes "textual g" and "trim (text_of g) \<noteq> [] \<Longrightarrow> textual m"
  shows "mealdb_entry g m =
     Inr (if trim (text_of g) \<noteq> []
          then Some \<lparr>name = JStr (trim (text_of g)), amount = JStr (trim (text_of m)),
                     unit_f = JStr [],
                     originalString = JStr (trim (text_of m @ '' '' @ text_of g))\<rparr>
          else None)"
proof (cases "trim (text_of g) = []")
  case True
  with assms(1) show ?thesis
    by (cases g) (auto simp: mealdb_entry_def trim_def)
next
  case False
  then obtain s where g: "g = JStr s" "s \<noteq> []"
    using trim_Nil by (cases g) auto
  from False assms(2) have "textual m" by simp
  then show ?thesis using False g
    by (cases m) (auto simp: mealdb_entry_def bnd_def js_or_def trim_def)
qed

lemma mealdb_entry_slot:
  "slot_textual kvs i \<Longrightarrow>
   mealdb_entry (strIngredient kvs i) (strMeasure kvs i)
     = Inr (if slot_present kvs i then Some (slot_ingredient kvs i) else None)"
  using mealdb_entry_textual [of "strIngredient kvs i" "strMeasure kvs i"]
  by (simp add: slot_textual_def slot_present_def slot_ingredient_def)

lemma upt_1_21: "[Suc 0..<21] = [1, 2, 3, 4, 5, 6, 7, 8, 9, 10, 11, 12, 13, 14, 15, 16, 17, 18, 19, 20 :: nat]"
  by code_simp

lemma slots_1_20:
  "{1..20} = set [1, 2, 3, 4, 5, 6, 7, 8, 9, 10, 11, 12, 13, 14, 15, 16, 17, 18, 19, 20 :: nat]"
proof -
  have "{1..20} = set [Suc 0..<21]" by auto
  then show ?thesis by (simp only: upt_1_21)
qed

text \<open>
  The names that the template literals of lines 199 and 200 make of the counter are the
  names of the fields of the slot.
\<close>

lemma field_names_list:
  "list_all (\<lambda>i. ''strIngredient'' @ show_nat i = ingredient_fields ! (i - 1)
                \<and> ''strMeasure'' @ show_nat i = measure_fields ! (i - 1))
     [1, 2, 3, 4, 5, 6, 7, 8, 9, 10, 11, 12, 13, 14, 15, 16, 17, 18, 19, 20]"
  by code_simp

lemma field_names:
  assumes "1 \<le> i" and "i \<le> 20"
  shows "''strIngredient'' @ show_nat i = ingredient_fields ! (i - 1)"
    and "''strMeasure'' @ show_nat i = measure_fields ! (i - 1)"
proof -
  from assms have "i \<in> {1..20}" by simp
  with field_names_list [unfolded list_all_iff, folded slots_1_20]
  show "''strIngredient'' @ show_nat i = ingredient_fields ! (i - 1)"
    and "''strMeasure'' @ show_nat i = measure_fields ! (i - 1)"
    by blast+
qed

lemma ingredients_loop_slots:
  assumes "1 \<le> i" and "\<forall>j. i \<le> j \<and> j \<le> 20 \<longrightarrow> slot_textual kvs j"
  shows "ingredients_loop (JObj kvs) i acc
           = Inr (acc @ map (slot_ingredient kvs) (filter (slot_present kvs) [i..<21]))"
  using assms
proof (induction "21 - i" arbitrary: i acc)
  case 0
  then have "\<not> i \<le> 20" by simp
  then show ?case by (simp add: ingredients_loop.simps [of _ i])
next
  case (Suc n)
  then have i: "i \<le> 20" "i < 21" by simp_all
  from Suc.prems i have t: "slot_textual kvs i" by simp
  have n: "n = 21 - Suc i" using Suc.hyps(2) by simp
  have rest: "\<forall>j. Suc i \<le> j \<and> j \<le> 20 \<longrightarrow> slot_textual kvs j" using Suc.prems by simp
  have "1 \<le> Suc i" by simp
  note ih = Suc.hyps(1) [OF n this rest]
  have u: "[i..<21] = i # [Suc i..<21]" using i by (simp add: upt_conv_Cons)
  have g: "get_prop (JObj kvs) (''strIngredient'' @ show_nat i) = Inr (strIngredient kvs i)"
    "get_prop (JObj kvs) (''strMeasure'' @ show_nat i) = Inr (strMeasure kvs i)"
    using field_names [OF Suc.prems(1) i(1)] by (simp_all add: strIngredient_def strMeasure_def)
  have step: "ingredients_loop (JObj kvs) i acc
      = (case mealdb_entry (strIngredient kvs i) (strMeasure kvs i) of
           Inl x \<Rightarrow> Inl x
         | Inr None \<Rightarrow> ingredients_loop (JObj kvs) (Suc i) acc
         | Inr (Some g) \<Rightarrow> ingredients_loop (JObj kvs) (Suc i) (acc @ [g]))"
    by (subst ingredients_loop.simps) (simp only: i(1) g if_True sum.case)
  show ?case
    by (simp add: step mealdb_entry_slot [OF t] ih u)
qed

lemma mealdb_recipe_ingredients:
  assumes "\<forall>i \<in> {1..20}. slot_textual kvs i"
  shows "\<exists>r. mealdb_recipe (JObj kvs) = Inr r
           \<and> ingredients r = map (slot_ingredient kvs) (filter (slot_present kvs) [1..<21])"
proof -
  have "ingredients_loop (JObj kvs) 1 []
          = Inr ([] @ map (slot_ingredient kvs) (filter (slot_present kvs) [1..<21]))"
    using assms by (intro ingredients_loop_slots) simp_all
  then show ?thesis by (simp add: mealdb_recipe_def bnd_def)
qed

lemma fetchFromTheMealDB_first:
  "fetch_json e (TheMealDBSearch d) = Inr data \<Longrightarrow> mealdb_first data = Inr meal \<Longrightarrow>
   snd (fetchFromTheMealDB e d) = mealdb_recipe meal"
  by (simp add: fetchFromTheMealDB_def bnd_def Let_def)

text \<open>
  C6. For a record of TheMealDB, the first meal of the answer, whose slots 1 to 20 are
  textual, the adapter returns a recipe whose ingredients are those of the present slots
  among 1 to 20, one for each and in the order of the slots; a gap does not end the scan:
  when the slots 1 and 5 are present and no other slot is, the ingredients are the two of
  the slots 1 and 5.
\<close>
theorem free_adapter_scans_all_slots:
  assumes "fetch_json e (TheMealDBSearch d) = Inr data"
    and "mealdb_first data = Inr (JObj kvs)"
    and "\<forall>i \<in> {1..20}. slot_textual kvs i"
  shows "\<exists>r. snd (fetchFromTheMealDB e d) = Inr r
           \<and> ingredients r = map (slot_ingredient kvs) (filter (slot_present kvs) [1..<21])
           \<and> (slot_present kvs 1 \<and> slot_present kvs 5
                \<and> (\<forall>i \<in> {2, 3, 4} \<union> {6..20}. \<not> slot_present kvs i)
              \<longrightarrow> ingredients r = [slot_ingredient kvs 1, slot_ingredient kvs 5])"
proof -
  from mealdb_recipe_ingredients [OF assms(3)] obtain r where
    r: "mealdb_recipe (JObj kvs) = Inr r"
       "ingredients r = map (slot_ingredient kvs) (filter (slot_present kvs) [1..<21])"
    by blast
  have "ingredients r = [slot_ingredient kvs 1, slot_ingredient kvs 5]"
    if "slot_present kvs 1" "slot_present kvs 5"
       "\<forall>i \<in> {2, 3, 4} \<union> {6..20}. \<not> slot_present kvs i"
    using that by (simp add: r(2) upt_1_21)
  with r fetchFromTheMealDB_first [OF assms(1,2)] show ?thesis by simp
qed


lemma gappy_textual_list:
  "list_all (slot_textual gappy_meal)
     [1, 2, 3, 4, 5, 6, 7, 8, 9, 10, 11, 12, 13, 14, 15, 16, 17, 18, 19, 20]"
  by code_simp

lemma gappy_textual: "\<forall>i \<in> {1..20}. slot_textual gappy_meal i"
  using gappy_textual_list unfolding slots_1_20 list_all_iff .

lemma gappy_present_list:
  "list_all (\<lambda>i. slot_present gappy_meal i = (i = 1 \<or> i = 5))
     [1, 2, 3, 4, 5, 6, 7, 8, 9, 10, 11, 12, 13, 14, 15, 16, 17, 18, 19, 20]"
  by code_simp

lemma gappy_present:
  "slot_present gappy_meal 1 \<and> slot_present gappy_meal 5
   \<and> (\<forall>i \<in> {2, 3, 4} \<union> {6..20}. \<not> slot_present gappy_meal i)"
proof -
  have a: "\<forall>i \<in> {1..20}. slot_present gappy_meal i = (i = 1 \<or> i = 5)"
    using gappy_present_list unfolding slots_1_20 list_all_iff .
  have "slot_present gappy_meal 1" using a by force
  moreover have "slot_present gappy_meal 5" using a by force
  moreover have "\<forall>i \<in> {2, 3, 4} \<union> {6..20}. \<not> slot_present gappy_meal i"
  proof
    fix i :: nat assume i: "i \<in> {2, 3, 4} \<union> {6..20}"
    then have "i \<in> {1..20}" "i \<noteq> 1" "i \<noteq> 5" by auto
    with a show "\<not> slot_present gappy_meal i" by blast
  qed
  ultimately show ?thesis by blast
qed

lemma gappy_slots:
  "[slot_ingredient gappy_meal 1, slot_ingredient gappy_meal 5]
     = [\<lparr>name = JStr ''Bread'', amount = JStr ''2 slices'', unit_f = JStr [],
          originalString = JStr ''2 slices Bread''\<rparr>,
        \<lparr>name = JStr ''Butter'', amount = JStr [], unit_f = JStr [],
          originalString = JStr ''Butter''\<rparr>]"
  by code_simp

lemma gappy_first:
  "mealdb_first (JObj [(''meals'', JArr [JObj gappy_meal])]) = Inr (JObj gappy_meal)"
  by (simp add: mealdb_first_def bnd_def lookup_def)

lemma late_textual_list:
  "list_all (slot_textual late_meal)
     [1, 2, 3, 4, 5, 6, 7, 8, 9, 10, 11, 12, 13, 14, 15, 16, 17, 18, 19, 20]"
  by code_simp

lemma late_textual: "\<forall>i \<in> {1..20}. slot_textual late_meal i"
  using late_textual_list unfolding slots_1_20 list_all_iff .

lemma late_slots:
  "map (slot_ingredient late_meal) (filter (slot_present late_meal)
     [1, 2, 3, 4, 5, 6, 7, 8, 9, 10, 11, 12, 13, 14, 15, 16, 17, 18, 19, 20])
     = [\<lparr>name = JStr ''Pepper'', amount = JStr [], unit_f = JStr [],
          originalString = JStr ''Pepper''\<rparr>,
        \<lparr>name = JStr ''Leek'', amount = JStr ''1'', unit_f = JStr [],
          originalString = JStr ''1 Leek''\<rparr>,
        \<lparr>name = JStr ''Salt'', amount = JStr ''pinch'', unit_f = JStr [],
          originalString = JStr ''pinch  Salt''\<rparr>,
        \<lparr>name = JStr ''Water'', amount = JStr ''1 l'', unit_f = JStr [],
          originalString = JStr ''1 l Water''\<rparr>]"
  by code_simp

lemma late_first:
  "mealdb_first (JObj [(''meals'', JArr [JObj late_meal])]) = Inr (JObj late_meal)"
  by (simp add: mealdb_first_def bnd_def lookup_def)

theorem free_adapter_scans_all_slots_witness:
  "(case snd (fetchFromTheMealDB gappy_env ''Toast'') of Inl x \<Rightarrow> [] | Inr r \<Rightarrow> ingredients r)
     = [\<lparr>name = JStr ''Bread'', amount = JStr ''2 slices'', unit_f = JStr [],
          originalString = JStr ''2 slices Bread''\<rparr>,
        \<lparr>name = JStr ''Butter'', amount = JStr [], unit_f = JStr [],
          originalString = JStr ''Butter''\<rparr>]
   \<and> (case snd (fetchFromTheMealDB late_env ''Soup'') of Inl x \<Rightarrow> [] | Inr r \<Rightarrow> ingredients r)
     = [\<lparr>name = JStr ''Pepper'', amount = JStr [], unit_f = JStr [],
          originalString = JStr ''Pepper''\<rparr>,
        \<lparr>name = JStr ''Leek'', amount = JStr ''1'', unit_f = JStr [],
          originalString = JStr ''1 Leek''\<rparr>,
        \<lparr>name = JStr ''Salt'', amount = JStr ''pinch'', unit_f = JStr [],
          originalString = JStr ''pinch  Salt''\<rparr>,
        \<lparr>name = JStr ''Water'', amount = JStr ''1 l'', unit_f = JStr [],
          originalString = JStr ''1 l Water''\<rparr>]"
proof -
  have f: "fetch_json gappy_env (TheMealDBSearch ''Toast'')
             = Inr (JObj [(''meals'', JArr [JObj gappy_meal])])"
    by (simp add: gappy_env_def)
  from free_adapter_scans_all_slots [OF f gappy_first gappy_textual] gappy_present
  obtain r where "snd (fetchFromTheMealDB gappy_env ''Toast'') = Inr r"
    and "ingredients r = [slot_ingredient gappy_meal 1, slot_ingredient gappy_meal 5]"
    by blast
  then have 1: "(case snd (fetchFromTheMealDB gappy_env ''Toast'') of
                   Inl x \<Rightarrow> [] | Inr r \<Rightarrow> ingredients r)
     = [\<lparr>name = JStr ''Bread'', amount = JStr ''2 slices'', unit_f = JStr [],
          originalString = JStr ''2 slices Bread''\<rparr>,
        \<lparr>name = JStr ''Butter'', amount = JStr [], unit_f = JStr [],
          originalString = JStr ''Butter''\<rparr>]"
    unfolding gappy_slots by simp
  have g: "fetch_json late_env (TheMealDBSearch ''Soup'')
             = Inr (JObj [(''meals'', JArr [JObj late_meal])])"
    by (simp add: late_env_def)
  from free_adapter_scans_all_slots [OF g late_first late_textual]
  obtain r' where "snd (fetchFromTheMealDB late_env ''Soup'') = Inr r'"
    and "ingredients r' = map (slot_ingredient late_meal) (filter (slot_present late_meal) [1..<21])"
    by blast
  then have 2: "(case snd (fetchFromTheMealDB late_env ''Soup'') of
                   Inl x \<Rightarrow> [] | Inr r \<Rightarrow> ingredients r)
     = map (slot_ingredient late_meal) (filter (slot_present late_meal)
         [1, 2, 3, 4, 5, 6, 7, 8, 9, 10, 11, 12, 13, 14, 15, 16, 17, 18, 19, 20])"
    by (simp add: upt_1_21)
  from 1 2 show ?thesis by (simp only: late_slots simp_thms)
qed

lemma blank_textual: "\<not> truthy v \<Longrightarrow> textual v"
  by (cases v) simp_all

lemma trim_chicken:
  "trim ''Chicken'' = ''Chicken'' \<and> trim ''500g'' = ''500g''
   \<and> trim (''500g'' @ '' '' @ ''Chicken'') = ''500g Chicken''"
  by code_simp

text \<open>
  C7. When the first meal has \<^verbatim>\<open>strIngredient1\<close> Chicken and \<^verbatim>\<open>strMeasure1\<close> 500g
  and every other ingredient slot is empty (an empty or blank string, \<^verbatim>\<open>null\<close> or
  absent), the adapter returns a recipe with the one ingredient of name Chicken, amount
  500g, empty unit and original string \<^verbatim>\<open>500g Chicken\<close>.
\<close>
theorem chicken_scenario:
  assumes "fetch_json e (TheMealDBSearch d) = Inr data"
    and "mealdb_first data = Inr (JObj kvs)"
    and "strIngredient kvs 1 = JStr ''Chicken''"
    and "strMeasure kvs 1 = JStr ''500g''"
    and "\<forall>i \<in> {2..20}. textual (strIngredient kvs i) \<and> \<not> slot_present kvs i"
  shows "\<exists>r. snd (fetchFromTheMealDB e d) = Inr r
           \<and> ingredients r = [\<lparr>name = JStr ''Chicken'', amount = JStr ''500g'',
                                 unit_f = JStr [], originalString = JStr ''500g Chicken''\<rparr>]"
proof -
  have p1: "slot_present kvs (Suc 0)"
    using assms(3) by (simp add: slot_present_def trim_chicken)
  have t: "\<forall>i \<in> {1..20}. slot_textual kvs i"
  proof
    fix i :: nat assume "i \<in> {1..20}"
    then consider "i = 1" | "i \<in> {2..20}" by force
    then show "slot_textual kvs i"
      using assms(3,4,5) by cases (simp_all add: slot_textual_def)
  qed
  from mealdb_recipe_ingredients [OF t] obtain r where
    r: "mealdb_recipe (JObj kvs) = Inr r"
       "ingredients r = map (slot_ingredient kvs) (filter (slot_present kvs) [1..<21])"
    by blast
  have "filter (slot_present kvs) [Suc 0..<21] = [Suc 0]"
    using p1 assms(5) by (simp add: upt_1_21)
  then have "ingredients r = [slot_ingredient kvs 1]" by (simp add: r(2))
  then have "ingredients r = [\<lparr>name = JStr ''Chicken'', amount = JStr ''500g'',
                                 unit_f = JStr [], originalString = JStr ''500g Chicken''\<rparr>]"
    using assms(3,4) trim_chicken by (simp add: slot_ingredient_def)
  with r(1) fetchFromTheMealDB_first [OF assms(1,2)] show ?thesis by simp
qed

lemma chicken_first:
  "mealdb_first (JObj [(''meals'', JArr [JObj chicken_meal])]) = Inr (JObj chicken_meal)"
  by (simp add: mealdb_first_def bnd_def lookup_def)

lemma chicken_slot_1:
  "strIngredient chicken_meal 1 = JStr ''Chicken'' \<and> strMeasure chicken_meal 1 = JStr ''500g''"
  by code_simp

lemma chicken_rest_list:
  "list_all (\<lambda>i. i = 1 \<or> textual (strIngredient chicken_meal i) \<and> \<not> slot_present chicken_meal i)
     [1, 2, 3, 4, 5, 6, 7, 8, 9, 10, 11, 12, 13, 14, 15, 16, 17, 18, 19, 20]"
  by code_simp

lemma chicken_rest:
  "\<forall>i \<in> {2..20}. textual (strIngredient chicken_meal i) \<and> \<not> slot_present chicken_meal i"
proof
  fix i :: nat assume "i \<in> {2..20}"
  then have "i \<in> {1..20}" "i \<noteq> 1" by auto
  with chicken_rest_list [unfolded list_all_iff, folded slots_1_20]
  show "textual (strIngredient chicken_meal i) \<and> \<not> slot_present chicken_meal i" by blast
qed

theorem chicken_scenario_witness:
  "(case snd (fetchFromTheMealDB full_env ''Chicken Curry'') of
      Inl x \<Rightarrow> [] | Inr r \<Rightarrow> ingredients r)
     = [\<lparr>name = JStr ''Chicken'', amount = JStr ''500g'', unit_f = JStr [],
          originalString = JStr ''500g Chicken''\<rparr>]"
proof -
  have f: "fetch_json full_env (TheMealDBSearch ''Chicken Curry'')
             = Inr (JObj [(''meals'', JArr [JObj chicken_meal])])"
    by (simp add: full_env_def)
  from chicken_scenario [OF f chicken_first conjunct1 [OF chicken_slot_1]
      conjunct2 [OF chicken_slot_1] chicken_rest]
  obtain r where "snd (fetchFromTheMealDB full_env ''Chicken Curry'') = Inr r"
    and "ingredients r = [\<lparr>name = JStr ''Chicken'', amount = JStr ''500g'', unit_f = JStr [],
          originalString = JStr ''500g Chicken''\<rparr>]"
    by blast
  then show ?thesis by simp
qed

subsection \<open>The amounts of Edamam\<close>

lemma map_exn_Inr:
  "map_exn f xs = Inr ys \<Longrightarrow>
   length ys = length xs \<and> (\<forall>i < length xs. f (xs ! i) = Inr (ys ! i))"
proof (induction xs arbitrary: ys)
  case Nil
  then show ?case by simp
next
  case (Cons x xs)
  from Cons.prems obtain y zs where
    y: "f x = Inr y" and zs: "map_exn f xs = Inr zs" and ys: "ys = y # zs"
    by (auto split: sum.splits)
  from Cons.IH [OF zs] y ys show ?case
    by (auto simp: nth_Cons split: nat.splits)
qed

lemma edamam_ingredient_amount:
  "edamam_ingredient ing = Inr g \<Longrightarrow>
   \<exists>q. get_prop ing ''quantity'' = Inr q \<and> amount g = js_or q (JNum 1)"
  by (auto simp: edamam_ingredient_def bnd_def split: sum.splits)

lemma js_or_one: "js_or q (JNum 1) \<noteq> JNum 0"
  by (auto simp: js_or_def)

lemma js_or_falsy: "q = JUndefined \<or> q = JNull \<or> q = JNum 0 \<Longrightarrow> js_or q (JNum 1) = JNum 1"
  by (auto simp: js_or_def)

lemma edamam_recipe_ingredients:
  "edamam_recipe hit = Inr r \<Longrightarrow> get_prop hit ''ingredients'' = Inr (JArr ings) \<Longrightarrow>
   map_exn edamam_ingredient ings = Inr (ingredients r)"
  by (auto simp: edamam_recipe_def bnd_def split: sum.splits)

lemma fetchFromEdamam_Inr:
  assumes "getenv e ''EDAMAM_APP_ID'' = Some appId" and "getenv e ''EDAMAM_APP_KEY'' = Some appKey"
    and "fetch_json e (EdamamSearch appId appKey d) = Inr data"
    and "edamam_first data = Inr hit"
    and "snd (fetchFromEdamam e d) = Inr r"
  shows "edamam_recipe hit = Inr r"
  using assms by (auto simp: fetchFromEdamam_def bnd_def Let_def split: if_splits)

text \<open>
  C10. When the Edamam adapter returns a recipe, it has one ingredient for each ingredient
  of the recipe of the first hit, in order; an ingredient whose \<^verbatim>\<open>quantity\<close> is
  missing, \<^verbatim>\<open>null\<close> or 0 has the amount 1, and no ingredient of the recipe has the
  amount 0.
\<close>
theorem edamam_falsy_quantity_becomes_one:
  assumes "getenv e ''EDAMAM_APP_ID'' = Some appId" and "getenv e ''EDAMAM_APP_KEY'' = Some appKey"
    and "fetch_json e (EdamamSearch appId appKey d) = Inr data"
    and "edamam_first data = Inr hit"
    and "get_prop hit ''ingredients'' = Inr (JArr ings)"
    and "snd (fetchFromEdamam e d) = Inr r"
  shows "length (ingredients r) = length ings
       \<and> (\<forall>i < length ings.
             get_prop (ings ! i) ''quantity'' = Inr JUndefined
             \<or> get_prop (ings ! i) ''quantity'' = Inr JNull
             \<or> get_prop (ings ! i) ''quantity'' = Inr (JNum 0)
             \<longrightarrow> amount (ingredients r ! i) = JNum 1)
       \<and> (\<forall>g \<in> set (ingredients r). amount g \<noteq> JNum 0)"
proof -
  have m: "map_exn edamam_ingredient ings = Inr (ingredients r)"
    using edamam_recipe_ingredients [OF fetchFromEdamam_Inr [OF assms(1-4,6)] assms(5)] .
  note n = map_exn_Inr [OF m]
  have len: "length (ingredients r) = length ings" using n by simp
  have each: "\<exists>q. get_prop (ings ! i) ''quantity'' = Inr q
                \<and> amount (ingredients r ! i) = js_or q (JNum 1)" if "i < length ings" for i
    using n that edamam_ingredient_amount by blast
  have one: "amount (ingredients r ! i) = JNum 1"
    if "i < length ings"
      and "get_prop (ings ! i) ''quantity'' = Inr JUndefined
           \<or> get_prop (ings ! i) ''quantity'' = Inr JNull
           \<or> get_prop (ings ! i) ''quantity'' = Inr (JNum 0)" for i
  proof -
    from each [OF that(1)] obtain q where
      q: "get_prop (ings ! i) ''quantity'' = Inr q" "amount (ingredients r ! i) = js_or q (JNum 1)"
      by blast
    with that(2) have "q = JUndefined \<or> q = JNull \<or> q = JNum 0" by auto
    with q(2) show ?thesis by (simp add: js_or_falsy)
  qed
  have nz: "amount g \<noteq> JNum 0" if "g \<in> set (ingredients r)" for g
  proof -
    from that obtain i where i: "i < length (ingredients r)" "g = ingredients r ! i"
      by (auto simp: in_set_conv_nth)
    with len each [of i] obtain q where "amount g = js_or q (JNum 1)" by auto
    then show ?thesis by (simp add: js_or_one)
  qed
  from len one nz show ?thesis by blast
qed

lemma salad_first: "edamam_first (JObj [(''hits'', JArr [salad_hit])]) = Inr salad_json"
  by (simp add: edamam_first_def bnd_def lookup_def salad_hit_def)

lemma salad_fetch: "snd (fetchFromEdamam full_env ''Salad'') = Inr salad_recipe"
  by code_simp

theorem edamam_falsy_quantity_becomes_one_witness:
  "snd (fetchFromEdamam full_env ''Salad'') = Inr salad_recipe
   \<and> length (ingredients salad_recipe) = 3
   \<and> amount (ingredients salad_recipe ! 0) = JNum 1
   \<and> amount (ingredients salad_recipe ! 2) = JNum 1"
proof -
  have 1: "getenv full_env ''EDAMAM_APP_ID'' = Some ''id''"
    and 2: "getenv full_env ''EDAMAM_APP_KEY'' = Some ''ek''"
    and 3: "fetch_json full_env (EdamamSearch ''id'' ''ek'' ''Salad'')
              = Inr (JObj [(''hits'', JArr [salad_hit])])"
    by (simp_all add: full_env_def)
  have 5: "get_prop salad_json ''ingredients'' = Inr (JArr salad_ingredients)"
    by (simp add: salad_json_def lookup_def)
  have l: "length salad_ingredients = 3" by (simp add: salad_ingredients_def)
  have q0: "get_prop (salad_ingredients ! 0) ''quantity'' = Inr (JNum 0)"
    by (simp add: salad_ingredients_def lookup_def)
  have q2: "get_prop (salad_ingredients ! 2) ''quantity'' = Inr JUndefined"
    by (simp add: salad_ingredients_def lookup_def)
  from edamam_falsy_quantity_becomes_one [OF 1 2 3 salad_first 5 salad_fetch] l q0 q2
  show ?thesis by (simp add: salad_fetch)
qed

subsection \<open>Credentials\<close>

text \<open>
  C9, as the code has it. The Spoonacular adapter without its key (absent or empty) and
  the Edamam adapter without its id or its key throw the configuration error and make no
  upstream call. The adapter of TheMealDB reads no variable of the environment: whatever
  the environment holds it does the same, and it always makes its search call.
\<close>
theorem credentials_of_the_premium_and_nutrition_sources:
  "(getenv e ''SPOONACULAR_API_KEY'' = None \<or> getenv e ''SPOONACULAR_API_KEY'' = Some []
      \<longrightarrow> fetchFromSpoonacular e d = ([], Inl (Error ''Spoonacular API key not configured'')))
   \<and> (getenv e ''EDAMAM_APP_ID'' = None \<or> getenv e ''EDAMAM_APP_ID'' = Some []
       \<or> getenv e ''EDAMAM_APP_KEY'' = None \<or> getenv e ''EDAMAM_APP_KEY'' = Some []
      \<longrightarrow> fetchFromEdamam e d = ([], Inl (Error ''Edamam API credentials not configured'')))
   \<and> fetchFromTheMealDB (e\<lparr>getenv := g\<rparr>) d = fetchFromTheMealDB e d
   \<and> fst (fetchFromTheMealDB e d) = [TheMealDBSearch d]"
proof -
  have a: "fetchFromSpoonacular e d = ([], Inl (Error ''Spoonacular API key not configured''))"
    if "getenv e ''SPOONACULAR_API_KEY'' = None \<or> getenv e ''SPOONACULAR_API_KEY'' = Some []"
    using that by (auto simp: fetchFromSpoonacular_def)
  have b: "fetchFromEdamam e d = ([], Inl (Error ''Edamam API credentials not configured''))"
    if "getenv e ''EDAMAM_APP_ID'' = None \<or> getenv e ''EDAMAM_APP_ID'' = Some []
       \<or> getenv e ''EDAMAM_APP_KEY'' = None \<or> getenv e ''EDAMAM_APP_KEY'' = Some []"
    using that by (auto simp: fetchFromEdamam_def split: option.splits)
  have c: "fetchFromTheMealDB (e\<lparr>getenv := g\<rparr>) d = fetchFromTheMealDB e d"
    by (simp add: fetchFromTheMealDB_def)
  have f: "fst (fetchFromTheMealDB e d) = [TheMealDBSearch d]"
    by (simp add: fetchFromTheMealDB_def Let_def)
  from a b c f show ?thesis by blast
qed

theorem credentials_of_the_premium_and_nutrition_sources_witness:
  "fetchFromSpoonacular bare_env ''Pasta'' = ([], Inl (Error ''Spoonacular API key not configured''))
   \<and> fetchFromEdamam bare_env ''Salad'' = ([], Inl (Error ''Edamam API credentials not configured''))
   \<and> fst (fetchFromTheMealDB bare_env ''Chicken Curry'') = [TheMealDBSearch ''Chicken Curry'']"
proof -
  have n: "getenv bare_env k = None" for k by (simp add: bare_env_def)
  from credentials_of_the_premium_and_nutrition_sources [of bare_env "''Pasta''"]
       credentials_of_the_premium_and_nutrition_sources [of bare_env "''Salad''"]
       credentials_of_the_premium_and_nutrition_sources [of bare_env "''Chicken Curry''"]
  show ?thesis by (simp add: n)
qed

text \<open>
  C9 as stated fails for the free source: in an environment without any variable the
  adapter of TheMealDB makes its call and returns the recipe.
\<close>
theorem free_source_needs_no_credentials:
  "getenv bare_env ''SPOONACULAR_API_KEY'' = None
   \<and> getenv bare_env ''EDAMAM_APP_ID'' = None
   \<and> getenv bare_env ''EDAMAM_APP_KEY'' = None
   \<and> fetchFromTheMealDB bare_env ''Chicken Curry''
       = ([TheMealDBSearch ''Chicken Curry''], Inr chicken_recipe)"
  by code_simp

end
